theory Spec2Isabelle
  imports Main "HOL-Library.AList"
begin

section \<open>Strings as the program uses them\<close>

text \<open>
  JavaScript strings are modelled as \<open>string\<close>: a list of characters, each a code unit below
  256. Strings with other code units are outside the model. The helpers below are the string
  methods that \<open>GitOperations\<close> calls on subprocess output.
\<close>

text \<open>
  The white space and line terminators of the language among these code units: tab, line feed,
  vertical tab, form feed, carriage return, space and no-break space.
\<close>

definition isSpace :: "char \<Rightarrow> bool" where
  "isSpace c \<longleftrightarrow>
     c \<in> set [CHR '' '', CHR 0x09, CHR 0x0A, CHR 0x0B, CHR 0x0C, CHR 0x0D, CHR 0xA0]"

text \<open>\<open>String.prototype.trim\<close>.\<close>

definition trim :: "string \<Rightarrow> string" where
  "trim s = rev (dropWhile isSpace (rev (dropWhile isSpace s)))"

text \<open>\<open>s.split(c)\<close> for a one-character separator: the empty string splits into one empty piece.\<close>

fun split :: "char \<Rightarrow> string \<Rightarrow> string list" where
  "split c [] = [[]]"
| "split c (x # xs) =
     (if x = c then [] # split c xs
      else (case split c xs of [] \<Rightarrow> [[x]] | y # ys \<Rightarrow> (x # y) # ys))"

text \<open>\<open>parts.join(sep)\<close>.\<close>

fun join :: "string \<Rightarrow> string list \<Rightarrow> string" where
  "join sep [] = []"
| "join sep [x] = x"
| "join sep (x # y # ys) = x @ sep @ join sep (y # ys)"

fun startsWith :: "string \<Rightarrow> string \<Rightarrow> bool" where
  "startsWith s [] = True"
| "startsWith [] (p # ps) = False"
| "startsWith (x # xs) (p # ps) = (x = p \<and> startsWith xs ps)"

definition endsWith :: "string \<Rightarrow> string \<Rightarrow> bool" where
  "endsWith s p = startsWith (rev s) (rev p)"

text \<open>\<open>s.includes(p)\<close>.\<close>

fun includes_str :: "string \<Rightarrow> string \<Rightarrow> bool" where
  "includes_str [] p = (p = [])"
| "includes_str (x # xs) p = (startsWith (x # xs) p \<or> includes_str xs p)"

text \<open>\<open>s.replace(/^prefix/, "")\<close>: drops the prefix when it is there.\<close>

definition stripPrefix :: "string \<Rightarrow> string \<Rightarrow> string" where
  "stripPrefix p s = (if startsWith s p then drop (length p) s else s)"

text \<open>Decimal rendering of a non-negative integer, as a template literal renders a number.\<close>

definition digit :: "nat \<Rightarrow> char" where
  "digit d = ''0123456789'' ! d"

fun decimal :: "nat \<Rightarrow> string" where
  "decimal n = (if n < 10 then [digit n] else decimal (n div 10) @ [digit (n mod 10)])"

declare decimal.simps [simp del]

section \<open>The command-execution port\<close>

text \<open>
  \<open>GitOperations\<close> holds a \<open>SimpleGit\<close> handle and does all its work through it. Each method of
  the handle that the class calls is one constructor of \<open>cmd\<close>, with the arguments the class
  passes. A call either rejects with an error message or resolves with a value.
\<close>

datatype cmd =
    Raw "string list"
  | Checkout "string list"
  | Fetch "string list"
  | Revparse "string list"
  | AddAnnotatedTag string string
  | Add string
  | Push "string list"
  | Branch "string list"
  | BranchLocal

text \<open>How a call ended: with text, with a list of branch names, or with an error message.\<close>

datatype outcome = Done string | Listed "string list" | Failed string

datatype error = Error (message: string)

text \<open>A JavaScript number as far as the class produces one: an integer or \<open>NaN\<close>.\<close>

datatype number = Num int | NaN

text \<open>
  The host: what the class reads from outside itself. \<open>exec\<close> answers the calls whose result is
  text or is not looked at; \<open>summary\<close> answers \<open>git.branch\<close> and \<open>git.branchLocal\<close>, of whose result
  the class reads the field \<open>all\<close>. Both take the repository \<open>'w\<close> and give the repository after
  the call. \<open>clock\<close> is \<open>Date.now()\<close>, \<open>pid\<close> is \<open>process.pid\<close>, \<open>toNumber\<close> is \<open>Number\<close>, \<open>parseDate\<close>
  is \<open>new Date(s).getTime()\<close> with \<open>None\<close> for \<open>NaN\<close>, and \<open>valid_name\<close> is the imported
  \<open>isValidBranchName\<close>.
\<close>

record 'w host =
  exec :: "cmd \<Rightarrow> 'w \<Rightarrow> (string + string) \<times> 'w"
  summary :: "cmd \<Rightarrow> 'w \<Rightarrow> (string + string list) \<times> 'w"
  clock :: "'w \<Rightarrow> nat"
  pid :: nat
  toNumber :: "string \<Rightarrow> number"
  parseDate :: "string \<Rightarrow> int option"
  valid_name :: "string \<Rightarrow> bool"

text \<open>
  The state threaded through an operation: the repository, the calls made on the handle so far
  with their outcomes, and the messages handed to the progress callback.
\<close>

record 'w run =
  world :: 'w
  log :: "(cmd \<times> outcome) list"
  progress :: "string list"

type_synonym ('w, 'a) action = "'w run \<Rightarrow> (error + 'a) \<times> 'w run"

definition ret :: "'a \<Rightarrow> ('w, 'a) action" where
  "ret x s = (Inr x, s)"

definition raise :: "error \<Rightarrow> ('w, 'a) action" where
  "raise e s = (Inl e, s)"

text \<open>\<open>await m; f\<close>: a rejection of \<open>m\<close> skips \<open>f\<close>.\<close>

definition and_then :: "('w, 'a) action \<Rightarrow> ('a \<Rightarrow> ('w, 'b) action) \<Rightarrow> ('w, 'b) action" where
  "and_then m f s = (case m s of (Inl e, s') \<Rightarrow> (Inl e, s') | (Inr x, s') \<Rightarrow> f x s')"

text \<open>\<open>try { m } catch (e) { h e }\<close>.\<close>

definition try_catch :: "('w, 'a) action \<Rightarrow> (error \<Rightarrow> ('w, 'a) action) \<Rightarrow> ('w, 'a) action" where
  "try_catch m h s = (case m s of (Inl e, s') \<Rightarrow> h e s' | (Inr x, s') \<Rightarrow> (Inr x, s'))"

definition call :: "'w host \<Rightarrow> cmd \<Rightarrow> ('w, string) action" where
  "call G c s =
     (case exec G c (world s) of
        (Inl m, w) \<Rightarrow> (Inl (Error m), s\<lparr>world := w, log := log s @ [(c, Failed m)]\<rparr>)
      | (Inr out, w) \<Rightarrow> (Inr out, s\<lparr>world := w, log := log s @ [(c, Done out)]\<rparr>))"

definition call_all :: "'w host \<Rightarrow> cmd \<Rightarrow> ('w, string list) action" where
  "call_all G c s =
     (case summary G c (world s) of
        (Inl m, w) \<Rightarrow> (Inl (Error m), s\<lparr>world := w, log := log s @ [(c, Failed m)]\<rparr>)
      | (Inr names, w) \<Rightarrow> (Inr names, s\<lparr>world := w, log := log s @ [(c, Listed names)]\<rparr>))"

definition now :: "'w host \<Rightarrow> ('w, nat) action" where
  "now G s = (Inr (clock G (world s)), s)"

text \<open>
  \<open>progressCallback?.(msg)\<close>: the message is recorded. The callback is the caller's and is taken
  to return normally.
\<close>

definition report :: "string \<Rightarrow> ('w, unit) action" where
  "report msg s = (Inr (), s\<lparr>progress := progress s @ [msg]\<rparr>)"

section \<open>Branch operations\<close>

definition invalidName :: "string \<Rightarrow> error" where
  "invalidName b = Error (''Invalid branch name: '' @ b)"

definition fetchAll :: "'w host \<Rightarrow> ('w, unit) action" where
  "fetchAll G = and_then (call G (Fetch [''--all''])) (\<lambda>_. ret ())"

definition deleteLocalBranch :: "'w host \<Rightarrow> string \<Rightarrow> bool \<Rightarrow> ('w, unit) action" where
  "deleteLocalBranch G branch force =
     (if \<not> valid_name G branch then raise (invalidName branch)
      else and_then (call G (Raw [''branch'', if force then ''-D'' else ''-d'', branch]))
             (\<lambda>_. ret ()))"

definition deleteRemoteBranch :: "'w host \<Rightarrow> string \<Rightarrow> string \<Rightarrow> ('w, unit) action" where
  "deleteRemoteBranch G remote name =
     (if \<not> valid_name G name then raise (invalidName name)
      else and_then (call G (Push [remote, ''--delete'', name])) (\<lambda>_. ret ()))"

definition showRef :: "string \<Rightarrow> cmd" where
  "showRef r = Raw [''show-ref'', ''--verify'', ''--quiet'', r]"

definition branchExists :: "'w host \<Rightarrow> string \<Rightarrow> ('w, bool) action" where
  "branchExists G branch =
     (if \<not> valid_name G branch then raise (invalidName branch)
      else try_catch
             (and_then (call G (showRef (''refs/remotes/origin/'' @ branch))) (\<lambda>_. ret True))
             (\<lambda>_. try_catch
                    (and_then (call G (showRef (''refs/heads/'' @ branch))) (\<lambda>_. ret True))
                    (\<lambda>_. ret False)))"

definition resolveBranchRef :: "'w host \<Rightarrow> string \<Rightarrow> ('w, string) action" where
  "resolveBranchRef G branch =
     try_catch
       (and_then (call G (showRef (''refs/remotes/origin/'' @ branch)))
          (\<lambda>_. ret (''origin/'' @ branch)))
       (\<lambda>_. ret branch)"

definition setupCherryPick :: "'w host \<Rightarrow> string \<Rightarrow> ('w, string) action" where
  "setupCherryPick G targetBranch =
     (if \<not> valid_name G targetBranch then raise (invalidName targetBranch)
      else
        (let tempBranchName = ''temp-rebase-'' @ decimal (pid G) in
         and_then (resolveBranchRef G targetBranch) (\<lambda>checkoutTarget.
         and_then (call G (Checkout [''-b'', tempBranchName, checkoutTarget])) (\<lambda>_.
         ret tempBranchName))))"

definition getMergeBase :: "'w host \<Rightarrow> string \<Rightarrow> string \<Rightarrow> ('w, string) action" where
  "getMergeBase G branch1 branch2 =
     (if \<not> valid_name G branch1 then raise (invalidName branch1)
      else if \<not> valid_name G branch2 then raise (invalidName branch2)
      else
        and_then (resolveBranchRef G branch1) (\<lambda>baseBranch.
        and_then (call G (Raw [''merge-base'', baseBranch, branch2])) (\<lambda>result.
        ret (trim result))))"

definition getCommitsToCherryPick :: "'w host \<Rightarrow> string \<Rightarrow> string \<Rightarrow> ('w, string list) action" where
  "getCommitsToCherryPick G from to =
     and_then (call G (Raw [''rev-list'', ''--reverse'', ''--no-merges'', from @ ''..'' @ to]))
       (\<lambda>result.
     ret (filter (\<lambda>l. l \<noteq> []) (split (CHR 0x0A) (trim result))))"

definition backupTag :: "string \<Rightarrow> nat \<Rightarrow> string" where
  "backupTag currentBranch t =
     ''agrb-backup-'' @ map (\<lambda>c. if c = CHR ''/'' then CHR ''-'' else c) currentBranch
       @ ''-'' @ decimal t"

definition backupMessage :: "string \<Rightarrow> string \<Rightarrow> string" where
  "backupMessage currentBranch currentSha =
     ''Backup before agrb reset: '' @ currentBranch @ '' @ '' @ currentSha"

definition hardReset :: "string \<Rightarrow> cmd" where
  "hardReset tempBranchName = Raw [''reset'', ''--hard'', tempBranchName]"

definition createBackupTag :: "'w host \<Rightarrow> string \<Rightarrow> ('w, unit) action" where
  "createBackupTag G currentBranch =
     try_catch
       (and_then (call G (Revparse [currentBranch])) (\<lambda>out.
        and_then (now G) (\<lambda>t.
        and_then (call G (AddAnnotatedTag (backupTag currentBranch t)
                            (backupMessage currentBranch (trim out)))) (\<lambda>_.
        ret ()))))
       (\<lambda>e. raise (Error (''Failed to create backup tag: '' @ message e)))"

definition finishCherryPick :: "'w host \<Rightarrow> string \<Rightarrow> string \<Rightarrow> bool \<Rightarrow> ('w, unit) action" where
  "finishCherryPick G currentBranch tempBranchName createBackup =
     and_then (call G (Checkout [currentBranch])) (\<lambda>_.
     and_then (if createBackup then createBackupTag G currentBranch else ret ()) (\<lambda>_.
     and_then (call G (hardReset tempBranchName)) (\<lambda>_.
     ret ())))"

definition pushWithLease :: "'w host \<Rightarrow> string \<Rightarrow> ('w, unit) action" where
  "pushWithLease G branch =
     and_then (call G (Push [''-u'', ''origin'', branch, ''--force-with-lease''])) (\<lambda>_. ret ())"

section \<open>Linear rebase\<close>

definition targetMissing :: "string \<Rightarrow> error" where
  "targetMissing targetBranch =
     Error (''Target branch '' @ [CHR 0x27] @ targetBranch @ [CHR 0x27] @ '' does not exist'')"

text \<open>The body of the \<open>try\<close> block of \<open>performLinearRebase\<close>.\<close>

definition rebaseAttempt :: "'w host \<Rightarrow> string \<Rightarrow> string \<Rightarrow> bool \<Rightarrow> ('w, unit) action" where
  "rebaseAttempt G currentBranch targetBranch continueOnConflict =
     and_then (report ''Fetching all branches...'') (\<lambda>_.
     and_then (fetchAll G) (\<lambda>_.
     and_then (report ''Checking if target branch exists...'') (\<lambda>_.
     and_then (branchExists G targetBranch) (\<lambda>found.
     if \<not> found then raise (targetMissing targetBranch)
     else
       and_then (report ''Starting linear rebase...'') (\<lambda>_.
       and_then (call G (Checkout [currentBranch])) (\<lambda>_.
       and_then (resolveBranchRef G targetBranch) (\<lambda>rebaseTarget.
       and_then (call G (Raw ([''rebase'', rebaseTarget]
                                @ (if continueOnConflict then [''-X'', ''ours''] else [])))) (\<lambda>_.
       report ''Linear rebase completed successfully''))))))))"

text \<open>The best-effort abort: \<open>try { await this.git.raw(["rebase", "--abort"]) } catch {}\<close>.\<close>

definition abortQuietly :: "'w host \<Rightarrow> ('w, unit) action" where
  "abortQuietly G =
     try_catch (and_then (call G (Raw [''rebase'', ''--abort''])) (\<lambda>_. ret ())) (\<lambda>_. ret ())"

text \<open>The inner \<open>try\<close> block of the \<open>continueOnConflict\<close> branch of the handler.\<close>

definition autoResolve :: "'w host \<Rightarrow> ('w, unit) action" where
  "autoResolve G =
     and_then (report ''Conflicts detected, auto-resolving and continuing...'') (\<lambda>_.
     and_then (call G (Checkout [''--ours'', ''.''])) (\<lambda>_.
     and_then (call G (Add ''.'')) (\<lambda>_.
     and_then (call G (Raw [''rebase'', ''--continue''])) (\<lambda>_.
     report ''Linear rebase completed with conflicts auto-resolved''))))"

definition rebaseHandler :: "'w host \<Rightarrow> bool \<Rightarrow> error \<Rightarrow> ('w, unit) action" where
  "rebaseHandler G continueOnConflict err =
     (if continueOnConflict then
        try_catch (autoResolve G)
          (\<lambda>e. and_then (abortQuietly G) (\<lambda>_.
                raise (Error (''Linear rebase failed during continue: '' @ message e))))
      else
        and_then (abortQuietly G) (\<lambda>_.
        raise (Error (''Linear rebase failed: '' @ message err))))"

definition performLinearRebase ::
  "'w host \<Rightarrow> string \<Rightarrow> string \<Rightarrow> bool \<Rightarrow> ('w, unit) action" where
  "performLinearRebase G currentBranch targetBranch continueOnConflict =
     (if \<not> valid_name G targetBranch then raise (invalidName targetBranch)
      else try_catch (rebaseAttempt G currentBranch targetBranch continueOnConflict)
             (rebaseHandler G continueOnConflict))"

section \<open>Branch inventory\<close>

datatype BranchType = Local | Remote

text \<open>
  \<open>Omit<BranchInfo, "isMerged" | "ahead" | "behind">\<close> and \<open>BranchInfo\<close>. An optional or nullable
  field is an option; \<open>lastCommitDate\<close> holds the \<open>getTime()\<close> of the \<open>Date\<close>, in milliseconds.
\<close>

record BranchListing =
  ref :: string
  name :: string
  type :: BranchType
  remote :: "string option"
  lastCommitDate :: "int option"
  lastCommitSha :: "string option"
  lastCommitSubject :: "string option"

record BranchInfo = BranchListing +
  isMerged :: bool
  ahead :: number
  behind :: number

definition BRANCH_LIST_FORMAT :: string where
  "BRANCH_LIST_FORMAT =
     ''%(refname)%00%(committerdate:iso8601)%00%(objectname)%00%(contents:subject)''"

definition item :: "'a list \<Rightarrow> nat \<Rightarrow> 'a option" where
  "item xs i = (if i < length xs then Some (xs ! i) else None)"

definition remoteCandidates :: "string list" where
  "remoteCandidates = [''origin/main'', ''origin/master'', ''origin/develop'']"

definition localCandidates :: "string list" where
  "localCandidates = [''main'', ''master'', ''develop'']"

definition getBaseBranch :: "'w host \<Rightarrow> ('w, string option) action" where
  "getBaseBranch G =
     and_then (call_all G (Branch [''-r''])) (\<lambda>remoteBranches.
     case find (\<lambda>branch. trim branch \<in> set remoteBranches) remoteCandidates of
       Some branch \<Rightarrow> ret (Some (trim branch))
     | None \<Rightarrow>
         and_then (call_all G BranchLocal) (\<lambda>localBranches.
         ret (find (\<lambda>branch. branch \<in> set localBranches) localCandidates)))"

definition countQuery :: "string \<Rightarrow> string \<Rightarrow> cmd" where
  "countQuery branch base =
     Raw [''rev-list'', ''--left-right'', ''--count'', base @ ''...'' @ branch]"

text \<open>The result \<open>{ ahead, behind }\<close> is the pair \<open>(ahead, behind)\<close>.\<close>

definition getAheadBehind :: "'w host \<Rightarrow> string \<Rightarrow> string \<Rightarrow> ('w, number \<times> number) action" where
  "getAheadBehind G branch base =
     (if branch = base then ret (Num 0, Num 0)
      else try_catch
             (and_then (call G (countQuery branch base)) (\<lambda>result.
              let counts = map (toNumber G) (split (CHR 0x09) (trim result)) in
              ret (case item counts 1 of Some a \<Rightarrow> a | None \<Rightarrow> Num 0,
                   case item counts 0 of Some b \<Rightarrow> b | None \<Rightarrow> Num 0)))
             (\<lambda>_. ret (Num 0, Num 0)))"

definition getMergedSet :: "'w host \<Rightarrow> BranchType \<Rightarrow> ('w, string set) action" where
  "getMergedSet G ty =
     and_then (call G (Raw (if ty = Local then [''branch'', ''--merged'']
                            else [''branch'', ''-r'', ''--merged'']))) (\<lambda>output.
     let lines = map (\<lambda>line. trim (filter (\<lambda>c. c \<noteq> CHR ''*'') line)) (split (CHR 0x0A) output);
         filtered = filter (\<lambda>name. \<not> includes_str name '' -> '') (filter (\<lambda>l. l \<noteq> []) lines)
     in ret (set filtered))"

definition parseBranchLine :: "'w host \<Rightarrow> string \<Rightarrow> BranchType \<Rightarrow> BranchListing option" where
  "parseBranchLine G line ty =
     (let parts = split (CHR 0x00) line;
          shortRef = (case item parts 0 of
                        None \<Rightarrow> []
                      | Some full \<Rightarrow> stripPrefix ''refs/remotes/'' (stripPrefix ''refs/heads/'' full))
      in
      if shortRef = [] \<or> endsWith shortRef ''/HEAD'' then None
      else
        (let date = (case item parts 1 of
                       None \<Rightarrow> None
                     | Some dateStr \<Rightarrow> if dateStr = [] then None else parseDate G dateStr);
             subject = (case item parts 3 of
                          None \<Rightarrow> None
                        | Some sj \<Rightarrow> if trim sj \<noteq> [] then Some (trim sj) else None);
             sha = (case item parts 2 of
                      None \<Rightarrow> None
                    | Some h \<Rightarrow> if trim h \<noteq> [] then Some (trim h) else None)
         in
         if ty = Remote then
           (case split (CHR ''/'') shortRef of
              [] \<Rightarrow> None
            | rm # nameParts \<Rightarrow>
                (let nm = join ''/'' nameParts in
                 if \<not> (rm \<noteq> [] \<and> nm \<noteq> []) \<or> nm = ''HEAD'' then None
                 else Some \<lparr>ref = shortRef, name = nm, type = ty, remote = Some rm,
                            lastCommitDate = date, lastCommitSha = sha,
                            lastCommitSubject = subject\<rparr>))
         else Some \<lparr>ref = shortRef, name = shortRef, type = ty, remote = None,
                    lastCommitDate = date, lastCommitSha = sha,
                    lastCommitSubject = subject\<rparr>))"

definition listBranches :: "'w host \<Rightarrow> string \<Rightarrow> BranchType \<Rightarrow> ('w, BranchListing list) action" where
  "listBranches G refPrefix ty =
     and_then (call G (Raw [''for-each-ref'', ''--format='' @ BRANCH_LIST_FORMAT, refPrefix]))
       (\<lambda>output.
        ret (List.map_filter (\<lambda>line. parseBranchLine G line ty)
               (filter (\<lambda>l. l \<noteq> []) (map trim (split (CHR 0x0A) output)))))"

text \<open>
  Two promises under one \<open>Promise.all\<close>: both are started, so both run whether or not the other
  is rejected. The model runs them in the order they are started, and of two rejections keeps
  the one started first.
\<close>

definition alongside :: "('w, 'a) action \<Rightarrow> ('w, 'b) action \<Rightarrow> ('w, 'a \<times> 'b) action" where
  "alongside m n s =
     (case m s of (r1, s1) \<Rightarrow>
        (case n s1 of (r2, s2) \<Rightarrow>
           (case r1 of
              Inl e \<Rightarrow> (Inl e, s2)
            | Inr x \<Rightarrow> (case r2 of Inl e \<Rightarrow> (Inl e, s2) | Inr y \<Rightarrow> (Inr (x, y), s2)))))"

text \<open>\<open>Promise.all(xs.map(f))\<close>.\<close>

fun forEach :: "('a \<Rightarrow> ('w, 'b) action) \<Rightarrow> 'a list \<Rightarrow> ('w, 'b list) action" where
  "forEach f [] = ret []"
| "forEach f (x # xs) = and_then (alongside (f x) (forEach f xs)) (\<lambda>(y, ys). ret (y # ys))"

text \<open>
  The comparator handed to \<open>sort\<close>. Time values are integers, and the sign of their floating
  point difference is the sign of the integer difference.
\<close>

definition dateOf :: "'a BranchListing_scheme \<Rightarrow> int" where
  "dateOf a = (case lastCommitDate a of Some t \<Rightarrow> t | None \<Rightarrow> 0)"

definition compareBranches :: "BranchInfo \<Rightarrow> BranchInfo \<Rightarrow> int" where
  "compareBranches a b =
     (if type a \<noteq> type b then (if type a = Local then - 1 else 1)
      else dateOf b - dateOf a)"

text \<open>
  \<open>Array.prototype.sort\<close> with a comparator. The language fixes the result for a consistent
  comparator: the stable arrangement in which \<open>a\<close> stays before \<open>b\<close> unless the comparator is
  positive on them. Insertion from the right computes it.
\<close>

fun insertBy :: "('a \<Rightarrow> 'a \<Rightarrow> int) \<Rightarrow> 'a \<Rightarrow> 'a list \<Rightarrow> 'a list" where
  "insertBy cmp x [] = [x]"
| "insertBy cmp x (y # ys) = (if cmp x y \<le> 0 then x # y # ys else y # insertBy cmp x ys)"

definition sortBy :: "('a \<Rightarrow> 'a \<Rightarrow> int) \<Rightarrow> 'a list \<Rightarrow> 'a list" where
  "sortBy cmp xs = foldr (insertBy cmp) xs []"

text \<open>The first \<open>Promise.all\<close> of \<open>getBranchInfos\<close>: both merged sets and the base branch.\<close>

definition inventoryInputs ::
  "'w host \<Rightarrow> bool \<Rightarrow> ('w, string set \<times> string set \<times> string option) action" where
  "inventoryInputs G includeRemote =
     alongside (getMergedSet G Local)
       (alongside (if includeRemote then getMergedSet G Remote else ret {}) (getBaseBranch G))"

text \<open>The function mapped over \<open>allBranches\<close>.\<close>

definition withCounts ::
  "'w host \<Rightarrow> string set \<Rightarrow> string set \<Rightarrow> string option \<Rightarrow> BranchListing \<Rightarrow> ('w, BranchInfo) action"
  where
  "withCounts G localMerged remoteMerged baseBranch branch =
     and_then (case baseBranch of
                 Some base \<Rightarrow> getAheadBehind G (ref branch) base
               | None \<Rightarrow> ret (Num 0, Num 0)) (\<lambda>(a, b).
     ret (BranchListing.extend branch
            \<lparr>isMerged = (if type branch = Local then ref branch \<in> localMerged
                         else ref branch \<in> remoteMerged),
             ahead = a, behind = b\<rparr>))"

definition getBranchInfos :: "'w host \<Rightarrow> bool \<Rightarrow> ('w, BranchInfo list) action" where
  "getBranchInfos G includeRemote =
     and_then (inventoryInputs G includeRemote) (\<lambda>(localMerged, remoteMerged, baseBranch).
     and_then (listBranches G ''refs/heads/'' Local) (\<lambda>localBranches.
     and_then (if includeRemote then listBranches G ''refs/remotes/'' Remote else ret [])
       (\<lambda>remoteBranches.
     and_then (forEach (withCounts G localMerged remoteMerged baseBranch)
                 (localBranches @ remoteBranches)) (\<lambda>withCommitCounts.
     ret (sortBy compareBranches withCommitCounts)))))"

section \<open>Branch name validation\<close>

text \<open>
  Modelled from the spec: \<open>isValidBranchName\<close> of \<open>lib/isValidBranchName.js\<close>, which the class
  imports and whose source is not in the repository files at hand. The rules are those of the
  validator's contract: non-empty; no two consecutive path separators; no leading or trailing
  separator; no \<open>..\<close>; no segment starting with \<open>.\<close>; no segment ending in \<open>.lock\<close>; no trailing
  \<open>.\<close>; only characters of the safe set. The safe set is read off the validator's test file:
  letters, digits, \<open>.\<close>, \<open>_\<close>, \<open>-\<close> and \<open>/\<close>.
\<close>

definition safeChar :: "char \<Rightarrow> bool" where
  "safeChar c \<longleftrightarrow>
     (let n = of_char c :: nat in
      (48 \<le> n \<and> n \<le> 57) \<or> (65 \<le> n \<and> n \<le> 90) \<or> (97 \<le> n \<and> n \<le> 122)
      \<or> c \<in> set ''._-/'')"

definition isValidBranchName :: "string \<Rightarrow> bool" where
  "isValidBranchName nm \<longleftrightarrow>
     nm \<noteq> [] \<and> list_all safeChar nm
     \<and> \<not> includes_str nm ''//'' \<and> \<not> startsWith nm ''/'' \<and> \<not> endsWith nm ''/''
     \<and> \<not> includes_str nm ''..'' \<and> \<not> endsWith nm ''.''
     \<and> list_all (\<lambda>seg. \<not> startsWith seg ''.'' \<and> \<not> endsWith seg ''.lock'')
           (split (CHR ''/'') nm)"

section \<open>A small repository to run the operations on\<close>

text \<open>
  What a child process leaves behind: its exit code and what it wrote to its two streams.
\<close>

record process =
  exitCode :: nat
  stdOut :: string
  stdErr :: string

definition silent :: "nat \<Rightarrow> process" where
  "silent code = \<lparr>exitCode = code, stdOut = [], stdErr = []\<rparr>"

definition printed :: "string \<Rightarrow> process" where
  "printed out = \<lparr>exitCode = 0, stdOut = out, stdErr = []\<rparr>"

definition died :: "nat \<Rightarrow> string \<Rightarrow> process" where
  "died code msg = \<lparr>exitCode = code, stdOut = [], stdErr = msg @ [CHR 0x0A]\<rparr>"

text \<open>
  How the handle settles a finished process. The class builds the handle without an error
  policy of its own, and by default the library rejects a call exactly when the process exited
  with a non-zero code and wrote to its error stream; the message of the rejection is the
  output followed by the error output. A process that exits non-zero in silence resolves.
\<close>

definition settle :: "process \<Rightarrow> string + string" where
  "settle p =
     (if exitCode p \<noteq> 0 \<and> stdErr p \<noteq> [] then Inl (stdOut p @ stdErr p) else Inr (stdOut p))"

text \<open>
  A repository with the behaviour of the tool on the calls the operations make: references
  (branches under \<open>refs/heads/\<close>, remote-tracking branches under \<open>refs/remotes/\<close>, tags under
  \<open>refs/tags/\<close>) with the commit they point at, the branch that is checked out, and a clock.
  The read queries whose answer depends on the history (\<open>for-each-ref\<close>, \<open>rev-list\<close>,
  \<open>branch --merged\<close>) take their output from a table of prepared answers. A list of calls that
  are made to fail stands for failures from outside (a lost connection, a lock). What a
  successful call prints is given only where an operation reads it.
\<close>

record repo =
  tips :: "(string \<times> string) list"
  HEAD :: string
  time :: nat
  refusing :: "cmd list"
  answers :: "(cmd \<times> string) list"

definition quoted :: "string \<Rightarrow> string" where
  "quoted s = [CHR 0x27] @ s @ [CHR 0x27]"

text \<open>The commit a revision names: a local branch first, then a remote-tracking branch.\<close>

definition revision :: "repo \<Rightarrow> string \<Rightarrow> string option" where
  "revision w r =
     (case map_of (tips w) (''refs/heads/'' @ r) of
        Some commit \<Rightarrow> Some commit
      | None \<Rightarrow> map_of (tips w) (''refs/remotes/'' @ r))"

definition unknownRevision :: "string \<Rightarrow> string" where
  "unknownRevision r =
     ''fatal: ambiguous argument '' @ quoted r
       @ '': unknown revision or path not in the working tree.''"

definition git_raw :: "string list \<Rightarrow> repo \<Rightarrow> process \<times> repo" where
  "git_raw args w =
     (if take 3 args = [''show-ref'', ''--verify'', ''--quiet''] then
        (silent (if set (drop 3 args) \<subseteq> fst ` set (tips w) then 0 else 1), w)
      else if take 2 args = [''reset'', ''--hard''] then
        (case revision w (concat (drop 2 args)) of
           None \<Rightarrow> (died 128 (unknownRevision (concat (drop 2 args))), w)
         | Some commit \<Rightarrow>
             (printed [], w\<lparr>tips := AList.update (''refs/heads/'' @ HEAD w) commit (tips w)\<rparr>))
      else if args = [''rebase'', ''--abort''] \<or> args = [''rebase'', ''--continue''] then
        (died 128 ''fatal: No rebase in progress?'', w)
      else if take 1 args = [''rebase''] then
        (case revision w (concat (take 1 (drop 1 args))) of
           None \<Rightarrow>
             (died 128 (''fatal: invalid upstream '' @ quoted (concat (take 1 (drop 1 args)))), w)
         | Some commit \<Rightarrow> (printed [], w))
      else (printed [], w))"

definition git_checkout :: "string list \<Rightarrow> repo \<Rightarrow> process \<times> repo" where
  "git_checkout args w =
     (case args of
        [b] \<Rightarrow>
          (if (''refs/heads/'' @ b) \<in> fst ` set (tips w) then (printed [], w\<lparr>HEAD := b\<rparr>)
           else (died 1 (''error: pathspec '' @ quoted b
                           @ '' did not match any file(s) known to git''), w))
      | [opt, new, from] \<Rightarrow>
          (if opt \<noteq> ''-b'' then (printed [], w)
           else if (''refs/heads/'' @ new) \<in> fst ` set (tips w) then
             (died 128 (''fatal: a branch named '' @ quoted new @ '' already exists''), w)
           else
             (case revision w from of
                None \<Rightarrow>
                  (died 128 (''fatal: '' @ quoted from @ '' is not a commit and a branch ''
                               @ quoted new @ '' cannot be created from it''), w)
              | Some commit \<Rightarrow>
                  (printed [],
                   w\<lparr>tips := AList.update (''refs/heads/'' @ new) commit (tips w), HEAD := new\<rparr>)))
      | _ \<Rightarrow> (printed [], w))"

definition git_tag :: "string \<Rightarrow> repo \<Rightarrow> process \<times> repo" where
  "git_tag tag w =
     (if (''refs/tags/'' @ tag) \<in> fst ` set (tips w) then
        (died 128 (''fatal: tag '' @ quoted tag @ '' already exists''), w)
      else
        (case revision w (HEAD w) of
           None \<Rightarrow> (died 128 (''fatal: Failed to resolve '' @ quoted ''HEAD'' @ '' as a valid ref.''), w)
         | Some commit \<Rightarrow>
             (printed [], w\<lparr>tips := AList.update (''refs/tags/'' @ tag) commit (tips w)\<rparr>)))"

definition git_push :: "string list \<Rightarrow> repo \<Rightarrow> process \<times> repo" where
  "git_push args w =
     (case args of
        [u, rm, b, lease] \<Rightarrow>
          (if includes_str b ''..'' then (died 128 (''fatal: invalid refspec '' @ quoted b), w)
           else
             (case map_of (tips w) (''refs/heads/'' @ b) of
                None \<Rightarrow> (died 1 (''error: src refspec '' @ b @ '' does not match any''), w)
              | Some commit \<Rightarrow>
                  (printed [],
                   w\<lparr>tips := AList.update (''refs/remotes/'' @ rm @ ''/'' @ b) commit (tips w)\<rparr>)))
      | [rm, del, b] \<Rightarrow>
          (if (''refs/remotes/'' @ rm @ ''/'' @ b) \<in> fst ` set (tips w) then
             (printed [],
              w\<lparr>tips := filter (\<lambda>t. fst t \<noteq> ''refs/remotes/'' @ rm @ ''/'' @ b) (tips w)\<rparr>)
           else (died 1 (''error: unable to delete '' @ quoted b
                           @ '': remote ref does not exist''), w))
      | _ \<Rightarrow> (printed [], w))"

definition git :: "cmd \<Rightarrow> repo \<Rightarrow> process \<times> repo" where
  "git c w =
     (case c of
        Raw args \<Rightarrow> git_raw args w
      | Checkout args \<Rightarrow> git_checkout args w
      | Revparse args \<Rightarrow>
          (case revision w (concat args) of
             None \<Rightarrow> (died 128 (unknownRevision (concat args)), w)
           | Some commit \<Rightarrow> (printed (commit @ [CHR 0x0A]), w))
      | AddAnnotatedTag tag msg \<Rightarrow> git_tag tag w
      | Push args \<Rightarrow> git_push args w
      | _ \<Rightarrow> (printed [], w))"

definition refused :: "string + 'a" where
  "refused = Inl ''fatal: refused''"

definition sample_exec :: "cmd \<Rightarrow> repo \<Rightarrow> (string + string) \<times> repo" where
  "sample_exec c w =
     (if c \<in> set (refusing w) then (refused, w)
      else (case map_of (answers w) c of
              Some out \<Rightarrow> (Inr out, w)
            | None \<Rightarrow> (case git c w of (p, w') \<Rightarrow> (settle p, w'))))"

definition sample_summary :: "cmd \<Rightarrow> repo \<Rightarrow> (string + string list) \<times> repo" where
  "sample_summary c w =
     (if c \<in> set (refusing w) then (refused, w)
      else
        (case c of
           Branch args \<Rightarrow>
             (Inr (map (drop 13) (filter (\<lambda>r. startsWith r ''refs/remotes/'') (map fst (tips w)))), w)
         | BranchLocal \<Rightarrow>
             (Inr (map (drop 11) (filter (\<lambda>r. startsWith r ''refs/heads/'') (map fst (tips w)))), w)
         | _ \<Rightarrow> (Inr [], w)))"

text \<open>
  \<open>Number\<close> on the outputs of \<open>rev-list --count\<close>: a run of digits is its value and the empty
  string is 0.
\<close>

definition digits_value :: "string \<Rightarrow> int option" where
  "digits_value s =
     (if s \<noteq> [] \<and> list_all (\<lambda>c. 48 \<le> (of_char c :: nat) \<and> (of_char c :: nat) \<le> 57) s
      then Some (foldl (\<lambda>n c. 10 * n + (int (of_char c) - 48)) 0 s)
      else None)"

definition sample_number :: "string \<Rightarrow> number" where
  "sample_number s =
     (if s = [] then Num 0 else (case digits_value s of Some n \<Rightarrow> Num n | None \<Rightarrow> NaN))"

text \<open>
  The time value of a date as \<open>%(committerdate:iso8601)\<close> prints it, \<open>YYYY-MM-DD HH:MM:SS +ZZZZ\<close>:
  the milliseconds from the epoch to that instant, which is what \<open>new Date(s).getTime()\<close> is
  on such a string. These are the only date strings the sample repositories print; any other
  string is left without a value here.
\<close>

definition daysFromCivil :: "int \<Rightarrow> int \<Rightarrow> int \<Rightarrow> int" where
  "daysFromCivil y m d =
     (let y' = (if m \<le> 2 then y - 1 else y);
          era = y' div 400;
          yoe = y' - era * 400;
          doy = (153 * ((m + 9) mod 12) + 2) div 5 + d - 1;
          doe = yoe * 365 + yoe div 4 - yoe div 100 + doy
      in era * 146097 + doe - 719468)"

definition daysInMonth :: "int \<Rightarrow> int \<Rightarrow> int" where
  "daysInMonth y m =
     (if m = 2 then (if y mod 4 = 0 \<and> (y mod 100 \<noteq> 0 \<or> y mod 400 = 0) then 29 else 28)
      else if m \<in> {4, 6, 9, 11} then 30 else 31)"

definition gitDate :: "string \<Rightarrow> int option" where
  "gitDate s =
     (if length s \<noteq> 25
         \<or> map (\<lambda>i. s ! i) [4, 7, 10, 13, 16, 19] \<noteq> ''-- :: ''
         \<or> s ! 20 \<notin> set ''+-'' then None
      else
        (case map digits_value
                [take 4 s, take 2 (drop 5 s), take 2 (drop 8 s), take 2 (drop 11 s),
                 take 2 (drop 14 s), take 2 (drop 17 s), take 2 (drop 21 s), take 2 (drop 23 s)] of
           [Some y, Some m, Some d, Some hh, Some mm, Some ss, Some zh, Some zm] \<Rightarrow>
             (if 1 \<le> m \<and> m \<le> 12 \<and> 1 \<le> d \<and> d \<le> daysInMonth y m
                 \<and> hh < 24 \<and> mm < 60 \<and> ss < 60 \<and> zh < 24 \<and> zm < 60 then
                Some (((daysFromCivil y m d * 24 + hh) * 60 + mm
                        - (if s ! 20 = CHR ''-'' then - 1 else 1) * (zh * 60 + zm)) * 60000
                      + ss * 1000)
              else None)
         | _ \<Rightarrow> None))"

definition sample_host :: "repo host" where
  "sample_host =
     \<lparr>exec = sample_exec, summary = sample_summary, clock = time, pid = 4242,
      toNumber = sample_number, parseDate = gitDate, valid_name = isValidBranchName\<rparr>"

definition start :: "'w \<Rightarrow> 'w run" where
  "start w = \<lparr>world = w, log = [], progress = []\<rparr>"

text \<open>
  A repository with local branches only (and a branch \<open>topic\<close> that exists under the remote
  \<open>upstream\<close> only), and variants of it in which one call is made to fail.
\<close>

definition sample_repo :: repo where
  "sample_repo =
     \<lparr>tips = [(''refs/heads/feature'', ''c2''), (''refs/heads/main'', ''c0''),
              (''refs/heads/temp-rebase-4242'', ''c9''), (''refs/remotes/upstream/topic'', ''c5'')],
      HEAD = ''main'', time = 1700, refusing = [], answers = []\<rparr>"

definition feature_tag :: cmd where
  "feature_tag =
     AddAnnotatedTag ''agrb-backup-feature-1700'' ''Backup before agrb reset: feature @ c2''"

definition refusing_tag :: repo where
  "refusing_tag = sample_repo\<lparr>refusing := [feature_tag]\<rparr>"

definition refusing_count :: repo where
  "refusing_count = sample_repo\<lparr>refusing := [countQuery ''feature'' ''main'']\<rparr>"

text \<open>A clone: \<open>main\<close> and \<open>feature\<close> exist locally and under \<open>origin\<close>.\<close>

definition clone_repo :: repo where
  "clone_repo =
     \<lparr>tips = [(''refs/heads/feature'', ''c2''), (''refs/heads/main'', ''c0''),
              (''refs/remotes/origin/feature'', ''c2''), (''refs/remotes/origin/main'', ''c0'')],
      HEAD = ''feature'', time = 1700, refusing = [], answers = []\<rparr>"

text \<open>
  The clone with the rebase of \<open>performLinearRebase\<close> onto \<open>main\<close> in \<open>continueOnConflict\<close> mode
  made to fail, and the run as that failure leaves it.
\<close>

definition refusing_rebase :: repo where
  "refusing_rebase =
     clone_repo\<lparr>refusing := [Raw [''rebase'', ''origin/main'', ''-X'', ''ours'']]\<rparr>"

definition after_refused_rebase :: "repo run" where
  "after_refused_rebase =
     \<lparr>world = refusing_rebase,
      log = [(Fetch [''--all''], Done []),
             (Raw [''show-ref'', ''--verify'', ''--quiet'', ''refs/remotes/origin/main''], Done []),
             (Checkout [''feature''], Done []),
             (Raw [''show-ref'', ''--verify'', ''--quiet'', ''refs/remotes/origin/main''], Done []),
             (Raw [''rebase'', ''origin/main'', ''-X'', ''ours''], Failed ''fatal: refused'')],
      progress = [''Fetching all branches...'', ''Checking if target branch exists...'',
                  ''Starting linear rebase...'']\<rparr>"

text \<open>A repository whose \<open>rev-list\<close> from \<open>main\<close> to \<open>feature\<close> lists two commits.\<close>

definition listing_repo :: repo where
  "listing_repo =
     sample_repo\<lparr>answers :=
       [(Raw [''rev-list'', ''--reverse'', ''--no-merges'', ''main..feature''],
         ''c1'' @ [CHR 0x0A] @ ''c2'' @ [CHR 0x0A])]\<rparr>"

text \<open>One line of \<open>for-each-ref\<close> output in the format of \<open>BRANCH_LIST_FORMAT\<close>.\<close>

definition refLine :: "string \<Rightarrow> string \<Rightarrow> string \<Rightarrow> string \<Rightarrow> string" where
  "refLine full date sha subject =
     full @ [CHR 0x00] @ date @ [CHR 0x00] @ sha @ [CHR 0x00] @ subject @ [CHR 0x0A]"

text \<open>
  A repository with local branches \<open>main\<close> and \<open>dev\<close> and remote branches \<open>origin/main\<close> (merged)
  and \<open>origin/feature\<close> (not merged), and the inventory it gives. The line of \<open>dev\<close> carries no
  date.
\<close>

definition inventory_repo :: repo where
  "inventory_repo =
     \<lparr>tips = [(''refs/heads/main'', ''c0''), (''refs/heads/dev'', ''c1''),
              (''refs/remotes/origin/main'', ''c0''), (''refs/remotes/origin/feature'', ''c2'')],
      HEAD = ''main'', time = 1700, refusing = [],
      answers =
        [(Raw [''for-each-ref'', ''--format='' @ BRANCH_LIST_FORMAT, ''refs/heads/''],
          refLine ''refs/heads/main'' ''2024-01-15 10:30:00 +0900'' ''c0'' ''init''
            @ refLine ''refs/heads/dev'' [] ''c1'' ''work''),
         (Raw [''for-each-ref'', ''--format='' @ BRANCH_LIST_FORMAT, ''refs/remotes/''],
          refLine ''refs/remotes/origin/main'' ''2024-01-15 10:30:00 +0900'' ''c0'' ''init''
            @ refLine ''refs/remotes/origin/feature'' ''2024-03-01 00:00:00 +0000'' ''c2'' ''feat''),
         (Raw [''branch'', ''--merged''], ''* main'' @ [CHR 0x0A]),
         (Raw [''branch'', ''-r'', ''--merged''], ''  origin/main'' @ [CHR 0x0A]),
         (countQuery ''main'' ''origin/main'', ''0'' @ [CHR 0x09] @ ''0'' @ [CHR 0x0A]),
         (countQuery ''dev'' ''origin/main'', ''0'' @ [CHR 0x09] @ ''1'' @ [CHR 0x0A]),
         (countQuery ''origin/feature'' ''origin/main'',
          ''2'' @ [CHR 0x09] @ ''3'' @ [CHR 0x0A])]\<rparr>"

definition inventory :: "BranchInfo list" where
  "inventory =
     [\<lparr>ref = ''main'', name = ''main'', type = Local, remote = None,
       lastCommitDate = Some 1705282200000,
       lastCommitSha = Some ''c0'', lastCommitSubject = Some ''init'',
       isMerged = True, ahead = Num 0, behind = Num 0\<rparr>,
      \<lparr>ref = ''dev'', name = ''dev'', type = Local, remote = None, lastCommitDate = None,
       lastCommitSha = Some ''c1'', lastCommitSubject = Some ''work'',
       isMerged = False, ahead = Num 1, behind = Num 0\<rparr>,
      \<lparr>ref = ''origin/feature'', name = ''feature'', type = Remote, remote = Some ''origin'',
       lastCommitDate = Some 1709251200000,
       lastCommitSha = Some ''c2'', lastCommitSubject = Some ''feat'',
       isMerged = False, ahead = Num 3, behind = Num 2\<rparr>,
      \<lparr>ref = ''origin/main'', name = ''main'', type = Remote, remote = Some ''origin'',
       lastCommitDate = Some 1705282200000,
       lastCommitSha = Some ''c0'', lastCommitSubject = Some ''init'',
       isMerged = True, ahead = Num 0, behind = Num 0\<rparr>]"

text \<open>A repository with none of the six base candidates, and the inventory it gives.\<close>

definition nobase_repo :: repo where
  "nobase_repo =
     \<lparr>tips = [(''refs/heads/feature'', ''c2''), (''refs/heads/topic'', ''c3''),
              (''refs/remotes/upstream/topic'', ''c3'')],
      HEAD = ''feature'', time = 1700, refusing = [],
      answers =
        [(Raw [''for-each-ref'', ''--format='' @ BRANCH_LIST_FORMAT, ''refs/heads/''],
          refLine ''refs/heads/feature'' ''2024-01-15 10:30:00 +0900'' ''c2'' ''feat''
            @ refLine ''refs/heads/topic'' ''2024-03-01 00:00:00 +0000'' ''c3'' ''try''),
         (Raw [''branch'', ''--merged''], ''* feature'' @ [CHR 0x0A])]\<rparr>"

definition nobase_inventory :: "BranchInfo list" where
  "nobase_inventory =
     [\<lparr>ref = ''topic'', name = ''topic'', type = Local, remote = None,
       lastCommitDate = Some 1709251200000,
       lastCommitSha = Some ''c3'', lastCommitSubject = Some ''try'',
       isMerged = False, ahead = Num 0, behind = Num 0\<rparr>,
      \<lparr>ref = ''feature'', name = ''feature'', type = Local, remote = None,
       lastCommitDate = Some 1705282200000,
       lastCommitSha = Some ''c2'', lastCommitSubject = Some ''feat'',
       isMerged = True, ahead = Num 0, behind = Num 0\<rparr>]"

section \<open>Observing a run\<close>

text \<open>The calls made between two states of a run, with their outcomes.\<close>

definition issued :: "'w run \<Rightarrow> 'w run \<Rightarrow> (cmd \<times> outcome) list" where
  "issued s s' = drop (length (log s)) (log s')"

text \<open>The order of the inventory: \<open>a\<close> may stand before \<open>b\<close>.\<close>

definition mayPrecede :: "BranchInfo \<Rightarrow> BranchInfo \<Rightarrow> bool" where
  "mayPrecede a b \<longleftrightarrow>
     \<not> (type a = Remote \<and> type b = Local) \<and> (type a = type b \<longrightarrow> dateOf b \<le> dateOf a)"


section \<open>Basic facts about actions\<close>

lemma and_then_ret [simp]: "and_then (ret x) f = f x"
  by (rule ext) (simp add: and_then_def ret_def)

lemma and_then_raise [simp]: "and_then (raise e) f = raise e"
  by (rule ext) (simp add: and_then_def raise_def)

lemma try_catch_ret [simp]: "try_catch (ret x) h = ret x"
  by (rule ext) (simp add: try_catch_def ret_def)

lemma try_catch_raise [simp]: "try_catch (raise e) h = h e"
  by (rule ext) (simp add: try_catch_def raise_def)

lemmas op_defs = and_then_def try_catch_def ret_def raise_def call_def call_all_def now_def
  report_def

lemmas sample_defs = sample_host_def sample_exec_def sample_summary_def git_def git_raw_def
  git_checkout_def git_tag_def git_push_def settle_def silent_def printed_def died_def
  revision_def quoted_def unknownRevision_def sample_repo_def start_def refused_def

lemma invalid_sample: "\<not> isValidBranchName ''feature..branch''"
  by (simp add: isValidBranchName_def)

lemma valid_main: "isValidBranchName ''main''"
  by (simp add: isValidBranchName_def safeChar_def endsWith_def)

lemma valid_feature: "isValidBranchName ''feature''"
  by (simp add: isValidBranchName_def safeChar_def endsWith_def)

lemma valid_nonexistent: "isValidBranchName ''nonexistent''"
  by (simp add: isValidBranchName_def safeChar_def endsWith_def)

lemma decimal_1700: "decimal 1700 = ''1700''"
  by (simp add: decimal.simps digit_def)

section \<open>Finishing a cherry-pick rebase\<close>

lemma createBackupTag_cases:
  assumes "createBackupTag G cur s = (r, s')"
  shows "(\<exists>m w. exec G (Revparse [cur]) (world s) = (Inl m, w)
            \<and> r = Inl (Error (''Failed to create backup tag: '' @ m))
            \<and> s' = s\<lparr>world := w, log := log s @ [(Revparse [cur], Failed m)]\<rparr>)
       \<or> (\<exists>sha w1 m w2. exec G (Revparse [cur]) (world s) = (Inr sha, w1)
            \<and> exec G (AddAnnotatedTag (backupTag cur (clock G w1)) (backupMessage cur (trim sha))) w1
                = (Inl m, w2)
            \<and> r = Inl (Error (''Failed to create backup tag: '' @ m))
            \<and> s' = s\<lparr>world := w2, log := log s @ [(Revparse [cur], Done sha),
                   (AddAnnotatedTag (backupTag cur (clock G w1)) (backupMessage cur (trim sha)),
                    Failed m)]\<rparr>)
       \<or> (\<exists>sha w1 out w2. exec G (Revparse [cur]) (world s) = (Inr sha, w1)
            \<and> exec G (AddAnnotatedTag (backupTag cur (clock G w1)) (backupMessage cur (trim sha))) w1
                = (Inr out, w2)
            \<and> r = Inr ()
            \<and> s' = s\<lparr>world := w2, log := log s @ [(Revparse [cur], Done sha),
                   (AddAnnotatedTag (backupTag cur (clock G w1)) (backupMessage cur (trim sha)),
                    Done out)]\<rparr>)"
  using assms
  by (auto simp: createBackupTag_def op_defs split: prod.splits sum.splits)

lemma finishCherryPick_unfold:
  "finishCherryPick G cur temp True s =
     (case call G (Checkout [cur]) s of
        (Inl e, s1) \<Rightarrow> (Inl e, s1)
      | (Inr x, s1) \<Rightarrow>
          (case createBackupTag G cur s1 of
             (Inl e, s2) \<Rightarrow> (Inl e, s2)
           | (Inr y, s2) \<Rightarrow>
               (case call G (hardReset temp) s2 of
                  (Inl e, s3) \<Rightarrow> (Inl e, s3)
                | (Inr z, s3) \<Rightarrow> (Inr (), s3))))"
  by (simp add: finishCherryPick_def and_then_def ret_def split: prod.splits sum.splits)

lemma finishCherryPick_cases:
  assumes run: "finishCherryPick G cur temp True s = (r, s')"
  shows "(\<exists>m w. exec G (Checkout [cur]) (world s) = (Inl m, w) \<and> r = Inl (Error m)
            \<and> s' = s\<lparr>world := w, log := log s @ [(Checkout [cur], Failed m)]\<rparr>)
       \<or> (\<exists>o1 w1 m w2. exec G (Checkout [cur]) (world s) = (Inr o1, w1)
            \<and> exec G (Revparse [cur]) w1 = (Inl m, w2)
            \<and> r = Inl (Error (''Failed to create backup tag: '' @ m))
            \<and> s' = s\<lparr>world := w2, log := log s @ [(Checkout [cur], Done o1),
                     (Revparse [cur], Failed m)]\<rparr>)
       \<or> (\<exists>o1 w1 sha w2 m w3. exec G (Checkout [cur]) (world s) = (Inr o1, w1)
            \<and> exec G (Revparse [cur]) w1 = (Inr sha, w2)
            \<and> exec G (AddAnnotatedTag (backupTag cur (clock G w2)) (backupMessage cur (trim sha))) w2
                = (Inl m, w3)
            \<and> r = Inl (Error (''Failed to create backup tag: '' @ m))
            \<and> s' = s\<lparr>world := w3, log := log s @ [(Checkout [cur], Done o1),
                     (Revparse [cur], Done sha),
                     (AddAnnotatedTag (backupTag cur (clock G w2)) (backupMessage cur (trim sha)),
                      Failed m)]\<rparr>)
       \<or> (\<exists>o1 sha t o3 oc w. s' = s\<lparr>world := w, log := log s @ [(Checkout [cur], Done o1),
                     (Revparse [cur], Done sha),
                     (AddAnnotatedTag (backupTag cur t) (backupMessage cur (trim sha)), Done o3),
                     (hardReset temp, oc)]\<rparr>
            \<and> r = (case oc of Failed m \<Rightarrow> Inl (Error m) | _ \<Rightarrow> Inr ()))"
proof -
  obtain x w1 where co: "exec G (Checkout [cur]) (world s) = (x, w1)"
    by (cases "exec G (Checkout [cur]) (world s)")
  show ?thesis
  proof (cases x)
    case (Inl m)
    with co run show ?thesis
      by (simp add: finishCherryPick_unfold call_def)
  next
    case (Inr o1)
    define s1 where "s1 = s\<lparr>world := w1, log := log s @ [(Checkout [cur], Done o1)]\<rparr>"
    have c1: "call G (Checkout [cur]) s = (Inr o1, s1)"
      using co Inr by (simp add: call_def s1_def)
    obtain r2 s2 where bt: "createBackupTag G cur s1 = (r2, s2)"
      by (cases "createBackupTag G cur s1")
    show ?thesis
      using createBackupTag_cases[OF bt]
    proof (elim disjE exE conjE)
      fix m w
      assume "exec G (Revparse [cur]) (world s1) = (Inl m, w)"
        "r2 = Inl (Error (''Failed to create backup tag: '' @ m))"
        "s2 = s1\<lparr>world := w, log := log s1 @ [(Revparse [cur], Failed m)]\<rparr>"
      with run c1 bt co Inr show ?thesis
        by (simp add: finishCherryPick_unfold s1_def)
    next
      fix sha w2 m w3
      assume "exec G (Revparse [cur]) (world s1) = (Inr sha, w2)"
        "exec G (AddAnnotatedTag (backupTag cur (clock G w2)) (backupMessage cur (trim sha))) w2
           = (Inl m, w3)"
        "r2 = Inl (Error (''Failed to create backup tag: '' @ m))"
        "s2 = s1\<lparr>world := w3, log := log s1 @ [(Revparse [cur], Done sha),
                   (AddAnnotatedTag (backupTag cur (clock G w2)) (backupMessage cur (trim sha)),
                    Failed m)]\<rparr>"
      with run c1 bt co Inr show ?thesis
        by (simp add: finishCherryPick_unfold s1_def)
    next
      fix sha w2 out w3
      assume a: "exec G (Revparse [cur]) (world s1) = (Inr sha, w2)"
        "exec G (AddAnnotatedTag (backupTag cur (clock G w2)) (backupMessage cur (trim sha))) w2
           = (Inr out, w3)"
        "r2 = Inr ()"
        "s2 = s1\<lparr>world := w3, log := log s1 @ [(Revparse [cur], Done sha),
                   (AddAnnotatedTag (backupTag cur (clock G w2)) (backupMessage cur (trim sha)),
                    Done out)]\<rparr>"
      obtain y w4 where rs: "exec G (hardReset temp) w3 = (y, w4)"
        by (cases "exec G (hardReset temp) w3")
      have "\<exists>oc. s' = s\<lparr>world := w4, log := log s @ [(Checkout [cur], Done o1),
                     (Revparse [cur], Done sha),
                     (AddAnnotatedTag (backupTag cur (clock G w2)) (backupMessage cur (trim sha)),
                      Done out),
                     (hardReset temp, oc)]\<rparr>
            \<and> r = (case oc of Failed m \<Rightarrow> Inl (Error m) | _ \<Rightarrow> Inr ())"
      proof (cases y)
        case (Inl m)
        with run c1 bt a rs show ?thesis
          by (intro exI[of _ "Failed m"]) (simp add: finishCherryPick_unfold s1_def call_def)
      next
        case (Inr b)
        with run c1 bt a rs show ?thesis
          by (intro exI[of _ "Done b"]) (simp add: finishCherryPick_unfold s1_def call_def)
      qed
      then show ?thesis by blast
    qed
  qed
qed

text \<open>
  C1. When \<open>finishCherryPick\<close> is called with \<open>createBackup\<close> set, the hard reset is issued only
  after the checkout of the current branch, the reading of its tip and the creation of the
  annotated tag (named from the branch and the clock, its message carrying the tip that was
  read) have all succeeded, in that order. If the creation of the tag fails, the call fails with
  the message \<open>Failed to create backup tag: ...\<close>, no hard reset is issued, and whatever
  is observed of the repository (\<open>tip\<close>, for instance the commit the current branch points at)
  is as before the call, given that checkout, \<open>rev-parse\<close> and tag creation do not change it.
\<close>

theorem finishCherryPick_backup_before_reset:
  assumes run: "finishCherryPick G cur temp True s = (r, s')"
    and checkout_keeps: "\<And>w. tip (snd (exec G (Checkout [cur]) w)) = tip w"
    and revparse_keeps: "\<And>w. tip (snd (exec G (Revparse [cur]) w)) = tip w"
    and tag_keeps: "\<And>n m w. tip (snd (exec G (AddAnnotatedTag n m) w)) = tip w"
  shows "(hardReset temp \<in> fst ` set (issued s s') \<longrightarrow>
           (\<exists>o1 sha t o3 oc. issued s s' =
              [(Checkout [cur], Done o1), (Revparse [cur], Done sha),
               (AddAnnotatedTag (backupTag cur t) (backupMessage cur (trim sha)), Done o3),
               (hardReset temp, oc)]))
       \<and> (\<forall>n m e. (AddAnnotatedTag n m, Failed e) \<in> set (issued s s') \<longrightarrow>
             r = Inl (Error (''Failed to create backup tag: '' @ e))
             \<and> hardReset temp \<notin> fst ` set (issued s s')
             \<and> tip (world s') = tip (world s))"
proof -
  consider
    (checkout) m w where "exec G (Checkout [cur]) (world s) = (Inl m, w)" "r = Inl (Error m)"
      "s' = s\<lparr>world := w, log := log s @ [(Checkout [cur], Failed m)]\<rparr>"
  | (revparse) o1 w1 m w2 where "exec G (Checkout [cur]) (world s) = (Inr o1, w1)"
      "exec G (Revparse [cur]) w1 = (Inl m, w2)"
      "r = Inl (Error (''Failed to create backup tag: '' @ m))"
      "s' = s\<lparr>world := w2, log := log s @ [(Checkout [cur], Done o1),
                     (Revparse [cur], Failed m)]\<rparr>"
  | (tag) o1 w1 sha w2 m w3 where "exec G (Checkout [cur]) (world s) = (Inr o1, w1)"
      "exec G (Revparse [cur]) w1 = (Inr sha, w2)"
      "exec G (AddAnnotatedTag (backupTag cur (clock G w2)) (backupMessage cur (trim sha))) w2
                = (Inl m, w3)"
      "r = Inl (Error (''Failed to create backup tag: '' @ m))"
      "s' = s\<lparr>world := w3, log := log s @ [(Checkout [cur], Done o1),
                     (Revparse [cur], Done sha),
                     (AddAnnotatedTag (backupTag cur (clock G w2)) (backupMessage cur (trim sha)),
                      Failed m)]\<rparr>"
  | (reset) o1 sha t o3 oc w where "s' = s\<lparr>world := w, log := log s @ [(Checkout [cur], Done o1),
                     (Revparse [cur], Done sha),
                     (AddAnnotatedTag (backupTag cur t) (backupMessage cur (trim sha)), Done o3),
                     (hardReset temp, oc)]\<rparr>"
    using finishCherryPick_cases[OF run] by blast
  then show ?thesis
  proof cases
    case checkout
    then show ?thesis by (simp add: issued_def hardReset_def)
  next
    case revparse
    then show ?thesis by (simp add: issued_def hardReset_def)
  next
    case tag
    have "tip w1 = tip (world s)"
      using checkout_keeps[of "world s"] tag(1) by simp
    moreover have "tip w2 = tip w1"
      using revparse_keeps[of w1] tag(2) by simp
    moreover have "tip w3 = tip w2"
      using tag_keeps[of "backupTag cur (clock G w2)" "backupMessage cur (trim sha)" w2] tag(3)
      by simp
    ultimately show ?thesis
      using tag(4,5) by (simp add: issued_def hardReset_def)
  next
    case reset
    then show ?thesis by (auto simp: issued_def hardReset_def)
  qed
qed

text \<open>
  Where the sample repository refuses the tag, the call fails as a backup failure and the
  branch \<open>feature\<close> still points at \<open>c2\<close>; where it does not, the reset comes fourth, after the
  tag.
\<close>

theorem finishCherryPick_backup_before_reset_witness:
  "(feature_tag, Failed ''fatal: refused'')
     \<in> set (issued (start refusing_tag)
          (snd (finishCherryPick sample_host ''feature'' ''temp-rebase-4242'' True (start refusing_tag))))
   \<and> fst (finishCherryPick sample_host ''feature'' ''temp-rebase-4242'' True (start refusing_tag))
       = Inl (Error ''Failed to create backup tag: fatal: refused'')
   \<and> map_of (tips (world (snd (finishCherryPick sample_host ''feature'' ''temp-rebase-4242'' True
         (start refusing_tag))))) ''refs/heads/feature'' = Some ''c2''
   \<and> hardReset ''temp-rebase-4242''
       \<in> fst ` set (issued (start sample_repo)
             (snd (finishCherryPick sample_host ''feature'' ''temp-rebase-4242'' True (start sample_repo))))
   \<and> issued (start sample_repo)
         (snd (finishCherryPick sample_host ''feature'' ''temp-rebase-4242'' True (start sample_repo)))
       = [(Checkout [''feature''], Done []), (Revparse [''feature''], Done (''c2'' @ [CHR 0x0A])),
          (feature_tag, Done []), (hardReset ''temp-rebase-4242'', Done [])]"
proof -
  let ?tip = "\<lambda>w. map_of (tips w) ''refs/heads/feature''"
  have run: "finishCherryPick sample_host ''feature'' ''temp-rebase-4242'' True (start refusing_tag)
     = (Inl (Error ''Failed to create backup tag: fatal: refused''),
        \<lparr>world = refusing_tag\<lparr>HEAD := ''feature''\<rparr>,
         log = [(Checkout [''feature''], Done []), (Revparse [''feature''], Done (''c2'' @ [CHR 0x0A])),
                (feature_tag, Failed ''fatal: refused'')],
         progress = []\<rparr>)"
    by (simp add: finishCherryPick_unfold createBackupTag_def op_defs sample_defs refusing_tag_def
        feature_tag_def backupTag_def backupMessage_def decimal_1700 trim_def isSpace_def
        hardReset_def)
  have done_log: "log (snd (finishCherryPick sample_host ''feature'' ''temp-rebase-4242'' True
        (start sample_repo)))
     = [(Checkout [''feature''], Done []), (Revparse [''feature''], Done (''c2'' @ [CHR 0x0A])),
        (feature_tag, Done []), (hardReset ''temp-rebase-4242'', Done [])]"
    by (simp add: finishCherryPick_unfold createBackupTag_def op_defs sample_defs
        feature_tag_def backupTag_def backupMessage_def decimal_1700 trim_def isSpace_def
        hardReset_def)
  have run2: "finishCherryPick sample_host ''feature'' ''temp-rebase-4242'' True (start sample_repo)
     = (fst (finishCherryPick sample_host ''feature'' ''temp-rebase-4242'' True (start sample_repo)),
        snd (finishCherryPick sample_host ''feature'' ''temp-rebase-4242'' True (start sample_repo)))"
    by simp
  have k1: "\<And>w. ?tip (snd (exec sample_host (Checkout [''feature'']) w)) = ?tip w"
    by (simp add: sample_host_def sample_exec_def git_def git_checkout_def split: option.splits)
  have k2: "\<And>w. ?tip (snd (exec sample_host (Revparse [''feature'']) w)) = ?tip w"
    by (simp add: sample_host_def sample_exec_def git_def split: option.splits)
  have k3: "\<And>n m w. ?tip (snd (exec sample_host (AddAnnotatedTag n m) w)) = ?tip w"
    by (simp add: sample_host_def sample_exec_def git_def git_tag_def update_conv'
        split: option.splits)
  have tagged: "(feature_tag, Failed ''fatal: refused'')
     \<in> set (issued (start refusing_tag) \<lparr>world = refusing_tag\<lparr>HEAD := ''feature''\<rparr>,
         log = [(Checkout [''feature''], Done []), (Revparse [''feature''], Done (''c2'' @ [CHR 0x0A])),
                (feature_tag, Failed ''fatal: refused'')],
         progress = []\<rparr>)"
    by (simp add: issued_def start_def)
  have refused: "(feature_tag, Failed ''fatal: refused'')
     \<in> set (issued (start refusing_tag)
          (snd (finishCherryPick sample_host ''feature'' ''temp-rebase-4242'' True (start refusing_tag))))
   \<and> fst (finishCherryPick sample_host ''feature'' ''temp-rebase-4242'' True (start refusing_tag))
       = Inl (Error ''Failed to create backup tag: fatal: refused'')
   \<and> map_of (tips (world (snd (finishCherryPick sample_host ''feature'' ''temp-rebase-4242'' True
         (start refusing_tag))))) ''refs/heads/feature'' = Some ''c2''"
    using finishCherryPick_backup_before_reset[of sample_host "''feature''" "''temp-rebase-4242''"
        _ _ _ ?tip, OF run k1 k2 k3] tagged
    unfolding run by (simp add: feature_tag_def start_def refusing_tag_def sample_repo_def)
  have issued2: "issued (start sample_repo)
         (snd (finishCherryPick sample_host ''feature'' ''temp-rebase-4242'' True (start sample_repo)))
       = [(Checkout [''feature''], Done []), (Revparse [''feature''], Done (''c2'' @ [CHR 0x0A])),
          (feature_tag, Done []), (hardReset ''temp-rebase-4242'', Done [])]"
    using done_log by (simp add: issued_def start_def)
  then have reset: "hardReset ''temp-rebase-4242''
       \<in> fst ` set (issued (start sample_repo)
             (snd (finishCherryPick sample_host ''feature'' ''temp-rebase-4242'' True (start sample_repo))))"
    by simp
  note ordered = finishCherryPick_backup_before_reset[of sample_host "''feature''"
      "''temp-rebase-4242''" _ _ _ ?tip, OF run2 k1 k2 k3, THEN conjunct1, rule_format, OF reset]
  from refused reset issued2 show ?thesis
    by (intro conjI) simp_all
qed


section \<open>Validation of branch names\<close>

text \<open>
  The operations that validate a name: given a name that fails validation, each fails with
  \<open>Invalid branch name: <name>\<close> and leaves the run as it was, so no call is made on the handle.
  Of the two names of \<open>getMergeBase\<close> the first is checked first.
\<close>

lemma validated_names_stop:
  assumes "\<not> valid_name G b"
  shows "deleteLocalBranch G b force s = (Inl (invalidName b), s)
       \<and> deleteRemoteBranch G rm b s = (Inl (invalidName b), s)
       \<and> branchExists G b s = (Inl (invalidName b), s)
       \<and> setupCherryPick G b s = (Inl (invalidName b), s)
       \<and> getMergeBase G b other s = (Inl (invalidName b), s)
       \<and> getMergeBase G other b s
           = (Inl (invalidName (if valid_name G other then b else other)), s)
       \<and> performLinearRebase G cur b cont s = (Inl (invalidName b), s)"
  using assms
  by (simp add: deleteLocalBranch_def deleteRemoteBranch_def branchExists_def setupCherryPick_def
      getMergeBase_def performLinearRebase_def raise_def)

text \<open>
  C2. \<open>pushWithLease\<close> does not validate its branch name. Whatever the name and whatever the
  validator says of it, the one call \<open>pushWithLease\<close> makes is \<open>git push\<close> with that name in the
  argument list, \<open>push -u origin <branch> --force-with-lease\<close>, and the outcome of the operation
  is the outcome of that push. Its sibling \<open>deleteRemoteBranch\<close> validates the name before its
  own \<open>git push\<close>.
\<close>

theorem pushWithLease_skips_validation:
  "(\<exists>oc. issued s (snd (pushWithLease G branch s))
           = [(Push [''-u'', ''origin'', branch, ''--force-with-lease''], oc)]
         \<and> fst (pushWithLease G branch s)
           = (case oc of Failed m \<Rightarrow> Inl (Error m) | _ \<Rightarrow> Inr ()))
   \<and> (\<not> valid_name G branch \<longrightarrow>
         deleteRemoteBranch G rm branch s
           = (Inl (Error (''Invalid branch name: '' @ branch)), s))"
proof (rule conjI)
  obtain r w where push:
    "exec G (Push [''-u'', ''origin'', branch, ''--force-with-lease'']) (world s) = (r, w)"
    by (cases "exec G (Push [''-u'', ''origin'', branch, ''--force-with-lease'']) (world s)")
  show "\<exists>oc. issued s (snd (pushWithLease G branch s))
           = [(Push [''-u'', ''origin'', branch, ''--force-with-lease''], oc)]
         \<and> fst (pushWithLease G branch s)
           = (case oc of Failed m \<Rightarrow> Inl (Error m) | _ \<Rightarrow> Inr ())"
  proof (cases r)
    case (Inl m)
    with push show ?thesis
      by (intro exI[of _ "Failed m"])
         (simp add: pushWithLease_def and_then_def ret_def call_def issued_def)
  next
    case (Inr out)
    with push show ?thesis
      by (intro exI[of _ "Done out"])
         (simp add: pushWithLease_def and_then_def ret_def call_def issued_def)
  qed
  show "\<not> valid_name G branch \<longrightarrow>
         deleteRemoteBranch G rm branch s
           = (Inl (Error (''Invalid branch name: '' @ branch)), s)"
    by (simp add: deleteRemoteBranch_def raise_def invalidName_def)
qed

text \<open>
  The name \<open>feature..branch\<close> is one the validator refuses. Given to \<open>pushWithLease\<close> it reaches
  \<open>git push\<close>, and the call does not fail with the validation error; given to
  \<open>deleteRemoteBranch\<close> it reaches nothing.
\<close>

theorem pushWithLease_skips_validation_witness:
  "\<not> valid_name sample_host ''feature..branch''
   \<and> map fst (issued (start sample_repo)
                 (snd (pushWithLease sample_host ''feature..branch'' (start sample_repo))))
       = [Push [''-u'', ''origin'', ''feature..branch'', ''--force-with-lease'']]
   \<and> fst (pushWithLease sample_host ''feature..branch'' (start sample_repo))
       \<noteq> Inl (Error ''Invalid branch name: feature..branch'')
   \<and> deleteRemoteBranch sample_host ''origin'' ''feature..branch'' (start sample_repo)
       = (Inl (Error ''Invalid branch name: feature..branch''), start sample_repo)"
proof -
  note th = pushWithLease_skips_validation[of "start sample_repo" sample_host
      "''feature..branch''" "''origin''"]
  have v: "\<not> valid_name sample_host ''feature..branch''"
    by (simp add: sample_host_def invalid_sample)
  obtain oc where
    i: "issued (start sample_repo)
          (snd (pushWithLease sample_host ''feature..branch'' (start sample_repo)))
          = [(Push [''-u'', ''origin'', ''feature..branch'', ''--force-with-lease''], oc)]"
    using th by blast
  have r: "fst (pushWithLease sample_host ''feature..branch'' (start sample_repo))
       = Inl (Error (''fatal: invalid refspec '' @ quoted ''feature..branch'' @ [CHR 0x0A]))"
    by (simp add: pushWithLease_def op_defs sample_defs)
  have d: "deleteRemoteBranch sample_host ''origin'' ''feature..branch'' (start sample_repo)
       = (Inl (Error ''Invalid branch name: feature..branch''), start sample_repo)"
    using th v by simp
  show ?thesis
    using v i r d by (simp add: quoted_def)
qed


section \<open>Linear rebase onto a missing target\<close>

text \<open>
  The probe \<open>show-ref --verify --quiet <ref>\<close> is what \<open>branchExists\<close> and \<open>resolveBranchRef\<close> rest
  on: they take a rejected call for a missing reference. When the call on
  \<open>refs/remotes/origin/<b>\<close> resolves, \<open>branchExists\<close> is true after that one call and
  \<open>resolveBranchRef\<close> gives \<open>origin/<b>\<close>.
\<close>

lemma branchExists_resolved_probe:
  assumes "valid_name G b"
    and "exec G (Raw [''show-ref'', ''--verify'', ''--quiet'', ''refs/remotes/origin/'' @ b])
           (world s) = (Inr out, w)"
  shows "branchExists G b s =
     (Inr True,
      s\<lparr>world := w,
        log := log s @ [(Raw [''show-ref'', ''--verify'', ''--quiet'',
                              ''refs/remotes/origin/'' @ b], Done out)]\<rparr>)"
  using assms
  by (simp add: branchExists_def showRef_def and_then_def try_catch_def ret_def call_def)

lemma resolveBranchRef_resolved_probe:
  assumes "exec G (Raw [''show-ref'', ''--verify'', ''--quiet'', ''refs/remotes/origin/'' @ b])
           (world s) = (Inr out, w)"
  shows "resolveBranchRef G b s =
     (Inr (''origin/'' @ b),
      s\<lparr>world := w,
        log := log s @ [(Raw [''show-ref'', ''--verify'', ''--quiet'',
                              ''refs/remotes/origin/'' @ b], Done out)]\<rparr>)"
  using assms
  by (simp add: resolveBranchRef_def showRef_def and_then_def try_catch_def ret_def call_def)

lemma settle_quiet: "stdErr p = [] \<Longrightarrow> settle p = Inr (stdOut p)"
  by (simp add: settle_def)

lemma abortQuietly_run:
  "\<exists>oc w. abortQuietly G s
     = (Inr (), s\<lparr>world := w, log := log s @ [(Raw [''rebase'', ''--abort''], oc)]\<rparr>)"
  by (cases "exec G (Raw [''rebase'', ''--abort'']) (world s)";
      cases "fst (exec G (Raw [''rebase'', ''--abort'']) (world s))")
     (auto simp: abortQuietly_def and_then_def try_catch_def ret_def call_def)

lemma abortQuietly_log:
  "\<exists>oc. fst (abortQuietly G s) = Inr ()
       \<and> log (snd (abortQuietly G s)) = log s @ [(Raw [''rebase'', ''--abort''], oc)]"
  using abortQuietly_run[of G s] by auto

lemma autoResolve_cases:
  assumes "autoResolve G s = (r, s')"
  shows "(\<exists>o1 o2 o3. r = Inr ()
            \<and> log s' = log s @ [(Checkout [''--ours'', ''.''], Done o1), (Add ''.'', Done o2),
                                 (Raw [''rebase'', ''--continue''], Done o3)])
       \<or> (\<exists>m. r = Inl (Error m)
            \<and> log s' = log s @ [(Checkout [''--ours'', ''.''], Failed m)])
       \<or> (\<exists>o1 m. r = Inl (Error m)
            \<and> log s' = log s @ [(Checkout [''--ours'', ''.''], Done o1), (Add ''.'', Failed m)])
       \<or> (\<exists>o1 o2 m. r = Inl (Error m)
            \<and> log s' = log s @ [(Checkout [''--ours'', ''.''], Done o1), (Add ''.'', Done o2),
                                 (Raw [''rebase'', ''--continue''], Failed m)])"
  using assms
  by (auto simp: autoResolve_def and_then_def call_def report_def split: prod.splits sum.splits)

text \<open>
  What the handler of \<open>performLinearRebase\<close> leaves: the calls made so far stay in the log, and
  the outcome is success or a message that starts with \<open>Linear rebase failed\<close>.
\<close>

lemma rebaseHandler_outcome:
  "\<exists>rest. log (snd (rebaseHandler G cont err s)) = log s @ rest
        \<and> (fst (rebaseHandler G cont err s) = Inr ()
           \<or> (\<exists>m. fst (rebaseHandler G cont err s) = Inl (Error (''Linear rebase failed'' @ m))))"
proof (cases cont)
  case False
  obtain oc where ab: "fst (abortQuietly G s) = Inr ()"
      "log (snd (abortQuietly G s)) = log s @ [(Raw [''rebase'', ''--abort''], oc)]"
    using abortQuietly_log[of G s] by blast
  have "rebaseHandler G cont err s
      = (Inl (Error (''Linear rebase failed'' @ ('': '' @ message err))), snd (abortQuietly G s))"
    using False ab(1)
    by (cases "abortQuietly G s") (simp add: rebaseHandler_def and_then_def raise_def)
  with ab(2) show ?thesis
    by (metis fst_conv snd_conv)
next
  case True
  obtain r2 s2 where ar: "autoResolve G s = (r2, s2)"
    by (cases "autoResolve G s")
  obtain mid where mid: "log s2 = log s @ mid"
    using autoResolve_cases[OF ar] by blast
  obtain oc where ab: "fst (abortQuietly G s2) = Inr ()"
      "log (snd (abortQuietly G s2)) = log s2 @ [(Raw [''rebase'', ''--abort''], oc)]"
    using abortQuietly_log[of G s2] by blast
  show ?thesis
  proof (cases r2)
    case (Inr u)
    with True ar have "rebaseHandler G cont err s = (Inr (), s2)"
      by (simp add: rebaseHandler_def try_catch_def)
    with mid show ?thesis by simp
  next
    case (Inl e)
    with True ar ab(1) have "rebaseHandler G cont err s
        = (Inl (Error (''Linear rebase failed'' @ ('' during continue: '' @ message e))),
           snd (abortQuietly G s2))"
      by (cases "abortQuietly G s2")
         (simp add: rebaseHandler_def try_catch_def and_then_def raise_def)
    moreover have "log (snd (abortQuietly G s2))
        = log s @ (mid @ [(Raw [''rebase'', ''--abort''], oc)])"
      using ab(2) mid by simp
    ultimately show ?thesis
      by (metis fst_conv snd_conv)
  qed
qed

text \<open>
  C3. \<open>performLinearRebase\<close> does not notice a missing target. Its check rests on the probe
  \<open>show-ref --verify --quiet refs/remotes/origin/<target>\<close> being rejected when the reference is
  missing; but a process that writes nothing to its error stream is not rejected, whatever
  its exit code, and the probe is told to be quiet. So for a target name that passes
  validation, whenever the fetch succeeds and the probe ends in silence, no missing-target
  error is raised: the call goes on to
  \<open>checkout <current>\<close> and, when that succeeds and the probe ends in silence again, to
  \<open>rebase origin/<target>\<close>. The call does not fail with the missing-target error.
\<close>

theorem performLinearRebase_overlooks_missing_target:
  assumes valid: "valid_name G b"
    and fetch: "exec G (Fetch [''--all'']) (world s) = (Inr o0, w0)"
    and probe: "exec G (Raw [''show-ref'', ''--verify'', ''--quiet'', ''refs/remotes/origin/'' @ b])
                  w0 = (settle p, w1)"
    and quiet: "stdErr p = []"
    and checkout: "exec G (Checkout [cur]) w1 = (Inr o2, w2)"
    and again: "exec G (Raw [''show-ref'', ''--verify'', ''--quiet'', ''refs/remotes/origin/'' @ b])
                  w2 = (settle q, w3)"
    and quiet_again: "stdErr q = []"
  shows "(\<exists>oc rest. issued s (snd (performLinearRebase G cur b cont s)) =
            [(Fetch [''--all''], Done o0),
             (Raw [''show-ref'', ''--verify'', ''--quiet'', ''refs/remotes/origin/'' @ b],
              Done (stdOut p)),
             (Checkout [cur], Done o2),
             (Raw [''show-ref'', ''--verify'', ''--quiet'', ''refs/remotes/origin/'' @ b],
              Done (stdOut q)),
             (Raw ([''rebase'', ''origin/'' @ b] @ (if cont then [''-X'', ''ours''] else [])), oc)]
            @ rest)
       \<and> fst (performLinearRebase G cur b cont s)
           \<noteq> Inl (Error (''Target branch '' @ [CHR 0x27] @ b @ [CHR 0x27] @ '' does not exist''))"
proof -
  let ?probe = "Raw [''show-ref'', ''--verify'', ''--quiet'', ''refs/remotes/origin/'' @ b]"
  let ?rebase = "Raw ([''rebase'', ''origin/'' @ b] @ (if cont then [''-X'', ''ours''] else []))"
  let ?calls = "[(Fetch [''--all''], Done o0), (?probe, Done (stdOut p)),
                 (Checkout [cur], Done o2), (?probe, Done (stdOut q))]"
  define sa where "sa = s\<lparr>progress := progress s @ [''Fetching all branches...'']\<rparr>"
  define sb where "sb = sa\<lparr>world := w0, log := log sa @ [(Fetch [''--all''], Done o0)]\<rparr>"
  define sc where "sc = sb\<lparr>progress := progress sb @ [''Checking if target branch exists...'']\<rparr>"
  define sd where "sd = sc\<lparr>world := w1, log := log sc @ [(?probe, Done (stdOut p))]\<rparr>"
  define se where "se = sd\<lparr>progress := progress sd @ [''Starting linear rebase...'']\<rparr>"
  define sf where "sf = se\<lparr>world := w2, log := log se @ [(Checkout [cur], Done o2)]\<rparr>"
  define s4 where "s4 = sf\<lparr>world := w3, log := log sf @ [(?probe, Done (stdOut q))]\<rparr>"
  have r1: "report ''Fetching all branches...'' s = (Inr (), sa)"
    by (simp add: report_def sa_def)
  have f1: "fetchAll G sa = (Inr (), sb)"
    using fetch by (simp add: fetchAll_def and_then_def ret_def call_def sa_def sb_def)
  have r2: "report ''Checking if target branch exists...'' sb = (Inr (), sc)"
    by (simp add: report_def sc_def)
  have probe': "exec G ?probe (world sc) = (Inr (stdOut p), w1)"
    using probe quiet by (simp add: sc_def sb_def settle_quiet)
  have found: "branchExists G b sc = (Inr True, sd)"
    using branchExists_resolved_probe[OF valid probe'] by (simp add: sd_def)
  have r3: "report ''Starting linear rebase...'' sd = (Inr (), se)"
    by (simp add: report_def se_def)
  have c1: "call G (Checkout [cur]) se = (Inr o2, sf)"
    using checkout by (simp add: call_def se_def sd_def sf_def)
  have again': "exec G ?probe (world sf) = (Inr (stdOut q), w3)"
    using again quiet_again by (simp add: sf_def settle_quiet)
  have target: "resolveBranchRef G b sf = (Inr (''origin/'' @ b), s4)"
    using resolveBranchRef_resolved_probe[OF again'] by (simp add: s4_def)
  have log4: "log s4 = log s @ ?calls"
    by (simp add: s4_def sf_def se_def sd_def sc_def sb_def sa_def)
  have attempt: "rebaseAttempt G cur b cont s =
      and_then (call G ?rebase) (\<lambda>_. report ''Linear rebase completed successfully'') s4"
    unfolding rebaseAttempt_def
    by (subst and_then_def, simp only: r1 prod.case sum.case,
        subst and_then_def, simp only: f1 prod.case sum.case,
        subst and_then_def, simp only: r2 prod.case sum.case,
        subst and_then_def, simp only: found prod.case sum.case simp_thms if_False,
        subst and_then_def, simp only: r3 prod.case sum.case,
        subst and_then_def, simp only: c1 prod.case sum.case,
        subst and_then_def, simp only: target prod.case sum.case)
  obtain r w4 where rb: "exec G ?rebase (world s4) = (r, w4)"
    by (cases "exec G ?rebase (world s4)")
  show ?thesis
  proof (cases r)
    case (Inr out)
    have "performLinearRebase G cur b cont s =
        (Inr (), s4\<lparr>world := w4, log := log s4 @ [(?rebase, Done out)],
                    progress := progress s4 @ [''Linear rebase completed successfully'']\<rparr>)"
      using valid rb Inr
      by (simp add: performLinearRebase_def try_catch_def attempt and_then_def call_def report_def)
    then show ?thesis
      using log4 by (simp add: issued_def)
  next
    case (Inl m)
    define s5 where "s5 = s4\<lparr>world := w4, log := log s4 @ [(?rebase, Failed m)]\<rparr>"
    have run: "performLinearRebase G cur b cont s = rebaseHandler G cont (Error m) s5"
      using valid rb Inl
      by (simp add: performLinearRebase_def try_catch_def attempt and_then_def call_def s5_def)
    obtain rest where rest: "log (snd (rebaseHandler G cont (Error m) s5)) = log s5 @ rest"
      and out: "fst (rebaseHandler G cont (Error m) s5) = Inr ()
           \<or> (\<exists>m'. fst (rebaseHandler G cont (Error m) s5)
                     = Inl (Error (''Linear rebase failed'' @ m')))"
      using rebaseHandler_outcome[of G cont "Error m" s5] by blast
    have "issued s (snd (performLinearRebase G cur b cont s))
        = (?calls @ [(?rebase, Failed m)]) @ rest"
      using rest log4 by (simp add: run issued_def s5_def)
    moreover have "fst (performLinearRebase G cur b cont s)
        \<noteq> Inl (Error (''Target branch '' @ [CHR 0x27] @ b @ [CHR 0x27] @ '' does not exist''))"
      using out by (auto simp: run)
    ultimately show ?thesis
      by simp
  qed
qed

text \<open>
  The sample repository has no branch \<open>nonexistent\<close>, neither local nor under \<open>origin\<close>. The probe
  exits with code 1 in silence. The call checks out \<open>feature\<close>, starts the rebase onto
  \<open>origin/nonexistent\<close> and fails with what the rebase printed.
\<close>

theorem performLinearRebase_overlooks_missing_target_witness:
  "valid_name sample_host ''nonexistent''
   \<and> ''refs/remotes/origin/nonexistent'' \<notin> fst ` set (tips sample_repo)
   \<and> ''refs/heads/nonexistent'' \<notin> fst ` set (tips sample_repo)
   \<and> git (Raw [''show-ref'', ''--verify'', ''--quiet'', ''refs/remotes/origin/nonexistent''])
         sample_repo = (silent 1, sample_repo)
   \<and> performLinearRebase sample_host ''feature'' ''nonexistent'' False (start sample_repo)
       = (Inl (Error (''Linear rebase failed: fatal: invalid upstream ''
                        @ [CHR 0x27] @ ''origin/nonexistent'' @ [CHR 0x27, CHR 0x0A])),
          \<lparr>world = sample_repo\<lparr>HEAD := ''feature''\<rparr>,
           log = [(Fetch [''--all''], Done []),
                  (Raw [''show-ref'', ''--verify'', ''--quiet'', ''refs/remotes/origin/nonexistent''],
                   Done []),
                  (Checkout [''feature''], Done []),
                  (Raw [''show-ref'', ''--verify'', ''--quiet'', ''refs/remotes/origin/nonexistent''],
                   Done []),
                  (Raw [''rebase'', ''origin/nonexistent''],
                   Failed (''fatal: invalid upstream '' @ [CHR 0x27] @ ''origin/nonexistent''
                             @ [CHR 0x27, CHR 0x0A])),
                  (Raw [''rebase'', ''--abort''],
                   Failed (''fatal: No rebase in progress?'' @ [CHR 0x0A]))],
           progress = [''Fetching all branches...'', ''Checking if target branch exists...'',
                       ''Starting linear rebase...'']\<rparr>)"
proof -
  let ?probe = "Raw [''show-ref'', ''--verify'', ''--quiet'', ''refs/remotes/origin/'' @ ''nonexistent'']"
  have v: "valid_name sample_host ''nonexistent''"
    by (simp add: sample_host_def valid_nonexistent)
  have absent: "''refs/remotes/origin/nonexistent'' \<notin> fst ` set (tips sample_repo)"
      "''refs/heads/nonexistent'' \<notin> fst ` set (tips sample_repo)"
    by (simp_all add: sample_repo_def)
  have exit1: "git (Raw [''show-ref'', ''--verify'', ''--quiet'', ''refs/remotes/origin/nonexistent''])
         sample_repo = (silent 1, sample_repo)"
    by (simp add: git_def git_raw_def sample_repo_def)
  have f: "exec sample_host (Fetch [''--all'']) (world (start sample_repo)) = (Inr [], sample_repo)"
    by (simp add: sample_defs)
  have p1: "exec sample_host ?probe sample_repo = (settle (silent 1), sample_repo)"
    using exit1 by (simp add: sample_host_def sample_exec_def sample_repo_def)
  have q: "stdErr (silent 1) = []"
    by (simp add: silent_def)
  have c: "exec sample_host (Checkout [''feature'']) sample_repo
      = (Inr [], sample_repo\<lparr>HEAD := ''feature''\<rparr>)"
    by (simp add: sample_defs)
  have p2: "exec sample_host ?probe (sample_repo\<lparr>HEAD := ''feature''\<rparr>)
      = (settle (silent 1), sample_repo\<lparr>HEAD := ''feature''\<rparr>)"
    by (simp add: sample_defs)
  have eval: "performLinearRebase sample_host ''feature'' ''nonexistent'' False (start sample_repo)
       = (Inl (Error (''Linear rebase failed: fatal: invalid upstream ''
                        @ [CHR 0x27] @ ''origin/nonexistent'' @ [CHR 0x27, CHR 0x0A])),
          \<lparr>world = sample_repo\<lparr>HEAD := ''feature''\<rparr>,
           log = [(Fetch [''--all''], Done []),
                  (Raw [''show-ref'', ''--verify'', ''--quiet'', ''refs/remotes/origin/nonexistent''],
                   Done []),
                  (Checkout [''feature''], Done []),
                  (Raw [''show-ref'', ''--verify'', ''--quiet'', ''refs/remotes/origin/nonexistent''],
                   Done []),
                  (Raw [''rebase'', ''origin/nonexistent''],
                   Failed (''fatal: invalid upstream '' @ [CHR 0x27] @ ''origin/nonexistent''
                             @ [CHR 0x27, CHR 0x0A])),
                  (Raw [''rebase'', ''--abort''],
                   Failed (''fatal: No rebase in progress?'' @ [CHR 0x0A]))],
           progress = [''Fetching all branches...'', ''Checking if target branch exists...'',
                       ''Starting linear rebase...'']\<rparr>)"
    by (simp add: performLinearRebase_def rebaseAttempt_def rebaseHandler_def abortQuietly_def
        fetchAll_def branchExists_def resolveBranchRef_def showRef_def op_defs sample_defs
        valid_nonexistent)
  from performLinearRebase_overlooks_missing_target[OF v f p1 q c p2 q, of False]
    v absent exit1 eval
  show ?thesis
    by simp
qed


section \<open>Ahead and behind\<close>

text \<open>
  C7. \<open>getAheadBehind\<close> of a branch against itself gives \<open>{ahead: 0, behind: 0}\<close> and leaves the
  run as it was, so without a call on the handle; when the count query fails it gives
  \<open>{ahead: 0, behind: 0}\<close>; and it never fails.
\<close>

theorem getAheadBehind_degrades:
  "getAheadBehind G b b s = (Inr (Num 0, Num 0), s)
   \<and> (fst (exec G (countQuery b base) (world s)) = Inl m \<longrightarrow>
        fst (getAheadBehind G b base s) = Inr (Num 0, Num 0))
   \<and> (\<forall>e. fst (getAheadBehind G b base s) \<noteq> Inl e)"
  by (auto simp: getAheadBehind_def op_defs split: prod.splits sum.splits)

text \<open>The sample repository refuses the count query for \<open>feature\<close> against \<open>main\<close>.\<close>

theorem getAheadBehind_degrades_witness:
  "fst (exec sample_host (countQuery ''feature'' ''main'') (world (start refusing_count)))
     = Inl ''fatal: refused''
   \<and> fst (getAheadBehind sample_host ''feature'' ''main'' (start refusing_count)) = Inr (Num 0, Num 0)"
  using getAheadBehind_degrades[of sample_host "''feature''" "start refusing_count" "''main''"
      "''fatal: refused''"]
  by (simp add: sample_defs refusing_count_def)


section \<open>Linear rebase with automatic resolution\<close>

text \<open>
  C8. With \<open>continueOnConflict\<close> set and a target name that passes validation, when the \<open>try\<close>
  block fails (the initial rebase failing is the case in point), the calls that follow are
  \<open>checkout --ours .\<close>, \<open>add .\<close> and
  \<open>rebase --continue\<close>, each made only if the one before succeeded. If all three succeed the
  call succeeds. If one fails with message \<open>m\<close>, a \<open>rebase --abort\<close> follows whose outcome is
  ignored, and the call fails with \<open>Linear rebase failed during continue: m\<close>. The call never
  fails with a message of the form \<open>Linear rebase failed: ...\<close>.
\<close>

theorem continue_policy_after_failed_attempt:
  assumes valid: "valid_name G tgt"
    and attempt: "rebaseAttempt G cur tgt True s = (Inl err, s1)"
    and run: "performLinearRebase G cur tgt True s = (r, s')"
  shows "((\<exists>o1 o2 o3. r = Inr ()
             \<and> issued s1 s' = [(Checkout [''--ours'', ''.''], Done o1), (Add ''.'', Done o2),
                                (Raw [''rebase'', ''--continue''], Done o3)])
          \<or> (\<exists>m oc. r = Inl (Error (''Linear rebase failed during continue: '' @ m))
                \<and> issued s1 s' = [(Checkout [''--ours'', ''.''], Failed m),
                                   (Raw [''rebase'', ''--abort''], oc)])
          \<or> (\<exists>o1 m oc. r = Inl (Error (''Linear rebase failed during continue: '' @ m))
                \<and> issued s1 s' = [(Checkout [''--ours'', ''.''], Done o1), (Add ''.'', Failed m),
                                   (Raw [''rebase'', ''--abort''], oc)])
          \<or> (\<exists>o1 o2 m oc. r = Inl (Error (''Linear rebase failed during continue: '' @ m))
                \<and> issued s1 s' = [(Checkout [''--ours'', ''.''], Done o1), (Add ''.'', Done o2),
                                   (Raw [''rebase'', ''--continue''], Failed m),
                                   (Raw [''rebase'', ''--abort''], oc)]))
       \<and> (\<forall>m. r \<noteq> Inl (Error (''Linear rebase failed: '' @ m)))"
proof -
  obtain r2 s2 where ar: "autoResolve G s1 = (r2, s2)"
    by (cases "autoResolve G s1")
  obtain oc where ab: "fst (abortQuietly G s2) = Inr ()"
      "log (snd (abortQuietly G s2)) = log s2 @ [(Raw [''rebase'', ''--abort''], oc)]"
    using abortQuietly_log[of G s2] by blast
  have result: "(r, s') = (case r2 of Inr x \<Rightarrow> (Inr x, s2)
       | Inl e \<Rightarrow> (Inl (Error (''Linear rebase failed during continue: '' @ message e)),
                    snd (abortQuietly G s2)))"
    using valid attempt run ar ab(1)
    by (cases "abortQuietly G s2")
       (auto simp: performLinearRebase_def rebaseHandler_def try_catch_def and_then_def raise_def
          split: sum.splits)
  from autoResolve_cases[OF ar] show ?thesis
  proof (elim disjE exE conjE)
    fix o1 o2 o3
    assume "r2 = Inr ()"
      "log s2 = log s1 @ [(Checkout [''--ours'', ''.''], Done o1), (Add ''.'', Done o2),
                          (Raw [''rebase'', ''--continue''], Done o3)]"
    with result show ?thesis
      by (simp add: issued_def)
  next
    fix m
    assume a: "r2 = Inl (Error m)" "log s2 = log s1 @ [(Checkout [''--ours'', ''.''], Failed m)]"
    have "issued s1 s' = [(Checkout [''--ours'', ''.''], Failed m),
                          (Raw [''rebase'', ''--abort''], oc)]"
      using a result ab(2) by (simp add: issued_def)
    moreover have "r = Inl (Error (''Linear rebase failed during continue: '' @ m))"
      using a result by simp
    ultimately show ?thesis
      by simp
  next
    fix o1 m
    assume a: "r2 = Inl (Error m)"
      "log s2 = log s1 @ [(Checkout [''--ours'', ''.''], Done o1), (Add ''.'', Failed m)]"
    have "issued s1 s' = [(Checkout [''--ours'', ''.''], Done o1), (Add ''.'', Failed m),
                          (Raw [''rebase'', ''--abort''], oc)]"
      using a result ab(2) by (simp add: issued_def)
    moreover have "r = Inl (Error (''Linear rebase failed during continue: '' @ m))"
      using a result by simp
    ultimately show ?thesis
      by simp
  next
    fix o1 o2 m
    assume a: "r2 = Inl (Error m)"
      "log s2 = log s1 @ [(Checkout [''--ours'', ''.''], Done o1), (Add ''.'', Done o2),
                          (Raw [''rebase'', ''--continue''], Failed m)]"
    have "issued s1 s' = [(Checkout [''--ours'', ''.''], Done o1), (Add ''.'', Done o2),
                          (Raw [''rebase'', ''--continue''], Failed m),
                          (Raw [''rebase'', ''--abort''], oc)]"
      using a result ab(2) by (simp add: issued_def)
    moreover have "r = Inl (Error (''Linear rebase failed during continue: '' @ m))"
      using a result by simp
    ultimately show ?thesis
      by simp
  qed
qed

text \<open>
  In the clone the rebase of \<open>feature\<close> onto \<open>origin/main\<close> is made to fail. No rebase is in
  progress after that, so \<open>rebase --continue\<close> fails, and so does the \<open>rebase --abort\<close> after it,
  whose failure is not seen in the outcome.
\<close>

theorem continue_policy_after_failed_attempt_witness:
  "valid_name sample_host ''main''
   \<and> rebaseAttempt sample_host ''feature'' ''main'' True (start refusing_rebase)
       = (Inl (Error ''fatal: refused''), after_refused_rebase)
   \<and> fst (performLinearRebase sample_host ''feature'' ''main'' True (start refusing_rebase))
       = Inl (Error (''Linear rebase failed during continue: fatal: No rebase in progress?''
                       @ [CHR 0x0A]))
   \<and> issued after_refused_rebase
        (snd (performLinearRebase sample_host ''feature'' ''main'' True (start refusing_rebase)))
       = [(Checkout [''--ours'', ''.''], Done []), (Add ''.'', Done []),
          (Raw [''rebase'', ''--continue''],
           Failed (''fatal: No rebase in progress?'' @ [CHR 0x0A])),
          (Raw [''rebase'', ''--abort''],
           Failed (''fatal: No rebase in progress?'' @ [CHR 0x0A]))]"
proof -
  have v: "valid_name sample_host ''main''"
    by (simp add: sample_host_def valid_main)
  have attempt: "rebaseAttempt sample_host ''feature'' ''main'' True (start refusing_rebase)
       = (Inl (Error ''fatal: refused''), after_refused_rebase)"
    by (simp add: rebaseAttempt_def fetchAll_def branchExists_def resolveBranchRef_def showRef_def
        op_defs sample_defs refusing_rebase_def clone_repo_def after_refused_rebase_def valid_main)
  have run: "performLinearRebase sample_host ''feature'' ''main'' True (start refusing_rebase)
     = (fst (performLinearRebase sample_host ''feature'' ''main'' True (start refusing_rebase)),
        snd (performLinearRebase sample_host ''feature'' ''main'' True (start refusing_rebase)))"
    by simp
  have eval: "performLinearRebase sample_host ''feature'' ''main'' True (start refusing_rebase)
     = (Inl (Error (''Linear rebase failed during continue: fatal: No rebase in progress?''
                      @ [CHR 0x0A])),
        after_refused_rebase\<lparr>log := log after_refused_rebase @
           [(Checkout [''--ours'', ''.''], Done []), (Add ''.'', Done []),
            (Raw [''rebase'', ''--continue''],
             Failed (''fatal: No rebase in progress?'' @ [CHR 0x0A])),
            (Raw [''rebase'', ''--abort''],
             Failed (''fatal: No rebase in progress?'' @ [CHR 0x0A]))],
          progress := progress after_refused_rebase
            @ [''Conflicts detected, auto-resolving and continuing...'']\<rparr>)"
    using v attempt
    by (simp add: performLinearRebase_def rebaseHandler_def autoResolve_def abortQuietly_def
        try_catch_def and_then_def ret_def raise_def call_def report_def
        sample_host_def sample_exec_def git_def git_raw_def git_checkout_def settle_def
        printed_def died_def refused_def
        after_refused_rebase_def refusing_rebase_def clone_repo_def)
  from continue_policy_after_failed_attempt[OF v attempt run] v attempt
  show ?thesis
    unfolding eval by (simp add: issued_def)
qed


section \<open>Which branches exist\<close>

text \<open>
  C9. \<open>branchExists\<close> answers true for a branch that is not there. For a valid name it is
  true as soon as the probe \<open>show-ref --verify --quiet refs/remotes/origin/<b>\<close> is not
  rejected, and a process that writes nothing to its error stream is not rejected, whatever
  its exit code. The probe is told to be quiet, so when the reference is missing it exits with
  code 1 in silence: \<open>branchExists\<close> answers true after that one call and never asks about
  \<open>refs/heads/<b>\<close>.
\<close>

theorem branchExists_true_on_silent_probe:
  assumes valid: "valid_name G b"
    and probe: "exec G (Raw [''show-ref'', ''--verify'', ''--quiet'', ''refs/remotes/origin/'' @ b])
                  (world s) = (settle p, w)"
    and quiet: "stdErr p = []"
  shows "branchExists G b s =
     (Inr True,
      s\<lparr>world := w,
        log := log s @ [(Raw [''show-ref'', ''--verify'', ''--quiet'',
                              ''refs/remotes/origin/'' @ b], Done (stdOut p))]\<rparr>)"
  using branchExists_resolved_probe[OF valid, of s "stdOut p" w] probe quiet
  by (simp add: settle_quiet)

text \<open>
  In the sample repository \<open>topic\<close> exists under the remote \<open>upstream\<close> only: there is neither
  \<open>refs/remotes/origin/topic\<close> nor \<open>refs/heads/topic\<close>. The probe exits with code 1 in silence,
  and \<open>topic\<close> is reported as existing.
\<close>

theorem branchExists_true_on_silent_probe_witness:
  "valid_name sample_host ''topic''
   \<and> ''refs/remotes/origin/topic'' \<notin> fst ` set (tips sample_repo)
   \<and> ''refs/heads/topic'' \<notin> fst ` set (tips sample_repo)
   \<and> git (Raw [''show-ref'', ''--verify'', ''--quiet'', ''refs/remotes/origin/topic''])
         sample_repo = (silent 1, sample_repo)
   \<and> branchExists sample_host ''topic'' (start sample_repo)
       = (Inr True,
          \<lparr>world = sample_repo,
           log = [(Raw [''show-ref'', ''--verify'', ''--quiet'', ''refs/remotes/origin/topic''],
                   Done [])],
           progress = []\<rparr>)"
proof -
  have v: "valid_name sample_host ''topic''"
    by (simp add: sample_host_def isValidBranchName_def safeChar_def endsWith_def)
  have absent: "''refs/remotes/origin/topic'' \<notin> fst ` set (tips sample_repo)"
      "''refs/heads/topic'' \<notin> fst ` set (tips sample_repo)"
    by (simp_all add: sample_repo_def)
  have exit1: "git (Raw [''show-ref'', ''--verify'', ''--quiet'', ''refs/remotes/origin/topic''])
         sample_repo = (silent 1, sample_repo)"
    by (simp add: git_def git_raw_def sample_repo_def)
  have p: "exec sample_host
        (Raw [''show-ref'', ''--verify'', ''--quiet'', ''refs/remotes/origin/'' @ ''topic''])
        (world (start sample_repo)) = (settle (silent 1), sample_repo)"
    using exit1 by (simp add: sample_host_def sample_exec_def sample_repo_def start_def)
  have q: "stdErr (silent 1) = []"
    by (simp add: silent_def)
  from branchExists_true_on_silent_probe[OF v p q] v absent exit1
  show ?thesis
    by (simp add: start_def silent_def)
qed


section \<open>The temporary branch\<close>

lemma decimal_4242: "decimal 4242 = ''4242''"
  by (simp add: decimal.simps digit_def)

lemma setupCherryPick_run:
  assumes valid: "valid_name G t"
  shows "\<exists>o1 rf o2. issued s (snd (setupCherryPick G t s)) =
            [(showRef (''refs/remotes/origin/'' @ t), o1),
             (Checkout [''-b'', ''temp-rebase-'' @ decimal (pid G), rf], o2)]
          \<and> rf \<in> {t, ''origin/'' @ t}
          \<and> fst (setupCherryPick G t s) =
              (case o2 of Failed m \<Rightarrow> Inl (Error m)
               | _ \<Rightarrow> Inr (''temp-rebase-'' @ decimal (pid G)))"
proof -
  obtain r1 w1 where p: "exec G (showRef (''refs/remotes/origin/'' @ t)) (world s) = (r1, w1)"
    by (cases "exec G (showRef (''refs/remotes/origin/'' @ t)) (world s)")
  define rf where "rf = (case r1 of Inr _ \<Rightarrow> ''origin/'' @ t | Inl _ \<Rightarrow> t)"
  define o1 where "o1 = (case r1 of Inr out \<Rightarrow> Done out | Inl m \<Rightarrow> Failed m)"
  obtain r2 w2 where c:
    "exec G (Checkout [''-b'', ''temp-rebase-'' @ decimal (pid G), rf]) w1 = (r2, w2)"
    by (cases "exec G (Checkout [''-b'', ''temp-rebase-'' @ decimal (pid G), rf]) w1")
  define o2 where "o2 = (case r2 of Inr out \<Rightarrow> Done out | Inl m \<Rightarrow> Failed m)"
  have "issued s (snd (setupCherryPick G t s)) =
            [(showRef (''refs/remotes/origin/'' @ t), o1),
             (Checkout [''-b'', ''temp-rebase-'' @ decimal (pid G), rf], o2)]
          \<and> rf \<in> {t, ''origin/'' @ t}
          \<and> fst (setupCherryPick G t s) =
              (case o2 of Failed m \<Rightarrow> Inl (Error m)
               | _ \<Rightarrow> Inr (''temp-rebase-'' @ decimal (pid G)))"
    using valid p c
    by (cases r1; cases r2)
       (simp_all add: setupCherryPick_def resolveBranchRef_def and_then_def try_catch_def ret_def
          call_def issued_def rf_def o1_def o2_def Let_def)
  then show ?thesis by blast
qed

text \<open>
  C10. Whatever the target and the state of the run, a successful \<open>setupCherryPick\<close> returns the
  same name, \<open>temp-rebase-<pid>\<close>. For a valid target the calls it makes are the probe of the
  remote-tracking reference and the \<open>checkout -b\<close> of that name, nothing else, and it fails
  exactly when that checkout fails.
\<close>

theorem setupCherryPick_name_from_pid:
  "(setupCherryPick G t1 s1 = (Inr n1, s1') \<and> setupCherryPick G t2 s2 = (Inr n2, s2')
      \<longrightarrow> n1 = n2 \<and> n1 = ''temp-rebase-'' @ decimal (pid G))
   \<and> (valid_name G t \<longrightarrow>
        (\<exists>o1 rf o2. issued s (snd (setupCherryPick G t s)) =
            [(showRef (''refs/remotes/origin/'' @ t), o1),
             (Checkout [''-b'', ''temp-rebase-'' @ decimal (pid G), rf], o2)]
          \<and> rf \<in> {t, ''origin/'' @ t}
          \<and> fst (setupCherryPick G t s) =
              (case o2 of Failed m \<Rightarrow> Inl (Error m)
               | _ \<Rightarrow> Inr (''temp-rebase-'' @ decimal (pid G)))))"
proof -
  have name: "n = ''temp-rebase-'' @ decimal (pid G)"
    if run: "setupCherryPick G t s = (Inr n, s')" for t s n s'
  proof -
    have "valid_name G t"
      using run by (auto simp: setupCherryPick_def raise_def split: if_splits)
    from setupCherryPick_run[OF this, of s] obtain o2 where
      "fst (setupCherryPick G t s) =
         (case o2 of Failed m \<Rightarrow> Inl (Error m) | _ \<Rightarrow> Inr (''temp-rebase-'' @ decimal (pid G)))"
      by blast
    with run show ?thesis
      by (cases o2) simp_all
  qed
  have same: "setupCherryPick G t1 s1 = (Inr n1, s1') \<and> setupCherryPick G t2 s2 = (Inr n2, s2')
      \<longrightarrow> n1 = n2 \<and> n1 = ''temp-rebase-'' @ decimal (pid G)"
    using name[of t1 s1 n1 s1'] name[of t2 s2 n2 s2'] by blast
  show ?thesis
    using same setupCherryPick_run[of G t s] by blast
qed

text \<open>
  In the clone the targets \<open>main\<close> and \<open>feature\<close> give the same temporary name, and a second
  call after the first fails in \<open>checkout -b\<close>, the branch being there already.
\<close>

theorem setupCherryPick_name_from_pid_witness:
  "valid_name sample_host ''main''
   \<and> fst (setupCherryPick sample_host ''main'' (start clone_repo)) = Inr ''temp-rebase-4242''
   \<and> fst (setupCherryPick sample_host ''feature'' (start clone_repo)) = Inr ''temp-rebase-4242''
   \<and> issued (start clone_repo) (snd (setupCherryPick sample_host ''main'' (start clone_repo)))
       = [(showRef ''refs/remotes/origin/main'', Done []),
          (Checkout [''-b'', ''temp-rebase-4242'', ''origin/main''], Done [])]
   \<and> fst (setupCherryPick sample_host ''feature''
            (snd (setupCherryPick sample_host ''main'' (start clone_repo))))
       = Inl (Error (''fatal: a branch named '' @ [CHR 0x27] @ ''temp-rebase-4242'' @ [CHR 0x27]
                       @ '' already exists'' @ [CHR 0x0A]))"
proof -
  have v: "valid_name sample_host ''main''"
    by (simp add: sample_host_def valid_main)
  have r1: "setupCherryPick sample_host ''main'' (start clone_repo)
      = (Inr ''temp-rebase-4242'',
         \<lparr>world = clone_repo\<lparr>tips := tips clone_repo @ [(''refs/heads/temp-rebase-4242'', ''c0'')],
                              HEAD := ''temp-rebase-4242''\<rparr>,
          log = [(showRef ''refs/remotes/origin/main'', Done []),
                 (Checkout [''-b'', ''temp-rebase-4242'', ''origin/main''], Done [])],
          progress = []\<rparr>)"
    by (simp add: setupCherryPick_def resolveBranchRef_def showRef_def op_defs sample_defs
        clone_repo_def valid_main decimal_4242 Let_def)
  have r2: "setupCherryPick sample_host ''feature'' (start clone_repo)
      = (Inr ''temp-rebase-4242'',
         \<lparr>world = clone_repo\<lparr>tips := tips clone_repo @ [(''refs/heads/temp-rebase-4242'', ''c2'')],
                              HEAD := ''temp-rebase-4242''\<rparr>,
          log = [(showRef ''refs/remotes/origin/feature'', Done []),
                 (Checkout [''-b'', ''temp-rebase-4242'', ''origin/feature''], Done [])],
          progress = []\<rparr>)"
    by (simp add: setupCherryPick_def resolveBranchRef_def showRef_def op_defs sample_defs
        clone_repo_def valid_feature decimal_4242 Let_def)
  note th = setupCherryPick_name_from_pid[of sample_host "''main''" "start clone_repo"
      "''temp-rebase-4242''" _ "''feature''" "start clone_repo" "''temp-rebase-4242''" _
      "''main''" "start clone_repo", THEN conjunct1, rule_format, OF conjI[OF r1 r2]]
  have i: "issued (start clone_repo) (snd (setupCherryPick sample_host ''main'' (start clone_repo)))
       = [(showRef ''refs/remotes/origin/main'', Done []),
          (Checkout [''-b'', ''temp-rebase-4242'', ''origin/main''], Done [])]"
    unfolding r1 by (simp add: issued_def start_def)
  have a: "fst (setupCherryPick sample_host ''main'' (start clone_repo)) = Inr ''temp-rebase-4242''"
    unfolding r1 by simp
  have b: "fst (setupCherryPick sample_host ''feature'' (start clone_repo)) = Inr ''temp-rebase-4242''"
    unfolding r2 by simp
  have c: "fst (setupCherryPick sample_host ''feature''
            (snd (setupCherryPick sample_host ''main'' (start clone_repo))))
       = Inl (Error (''fatal: a branch named '' @ [CHR 0x27] @ ''temp-rebase-4242'' @ [CHR 0x27]
                       @ '' already exists'' @ [CHR 0x0A]))"
    unfolding r1
    by (simp add: setupCherryPick_def resolveBranchRef_def showRef_def op_defs sample_defs
        clone_repo_def valid_feature decimal_4242 Let_def)
  from th show ?thesis
    by (intro conjI v a b i c)
qed


section \<open>The commits to replay\<close>

lemma split_no_sep: "c \<notin> set x \<Longrightarrow> split c x = [x]"
  by (induction x) auto

lemma split_at_sep: "c \<notin> set x \<Longrightarrow> split c (x @ c # ys) = x # split c ys"
  by (induction x) auto

lemma split_join_lines:
  "cs \<noteq> [] \<Longrightarrow> \<forall>x \<in> set cs. c \<notin> set x \<Longrightarrow> split c (join [c] cs) = cs"
  by (induction "[c]" cs rule: join.induct) (simp_all add: split_no_sep split_at_sep)

lemma concat_lines_join:
  "cs \<noteq> [] \<Longrightarrow> concat (map (\<lambda>x. x @ sep) cs) = join sep cs @ sep"
  by (induction sep cs rule: join.induct) simp_all

lemma join_nonempty: "cs \<noteq> [] \<Longrightarrow> \<forall>x \<in> set cs. x \<noteq> [] \<Longrightarrow> join sep cs \<noteq> []"
  by (induction sep cs rule: join.induct) simp_all

lemma hd_join: "cs \<noteq> [] \<Longrightarrow> \<forall>x \<in> set cs. x \<noteq> [] \<Longrightarrow> hd (join sep cs) = hd (hd cs)"
  by (induction sep cs rule: join.induct) simp_all

lemma last_join: "cs \<noteq> [] \<Longrightarrow> \<forall>x \<in> set cs. x \<noteq> [] \<Longrightarrow> last (join sep cs) = last (last cs)"
proof (induction sep cs rule: join.induct)
  case (3 sep x y ys)
  then have "join sep (y # ys) \<noteq> []"
    using join_nonempty[of "y # ys" sep] by simp
  with 3 show ?case by simp
qed simp_all

lemma dropWhile_stops: "xs \<noteq> [] \<Longrightarrow> \<not> P (hd xs) \<Longrightarrow> dropWhile P xs = xs"
  by (cases xs) simp_all

lemma trim_line:
  assumes "xs \<noteq> []" "\<not> isSpace (hd xs)" "\<not> isSpace (last xs)"
  shows "trim (xs @ [CHR 0x0A]) = xs"
proof -
  have front: "dropWhile isSpace (xs @ [CHR 0x0A]) = xs @ [CHR 0x0A]"
    using assms(1,2) by (intro dropWhile_stops) simp_all
  have tail: "dropWhile isSpace (rev xs) = rev xs"
    using assms(1,3) by (intro dropWhile_stops) (simp_all add: hd_rev)
  have "isSpace (CHR 0x0A)" by (simp add: isSpace_def)
  then show ?thesis
    by (simp add: trim_def front tail)
qed

lemma lines_roundtrip:
  assumes "\<forall>c \<in> set cs. c \<noteq> [] \<and> (\<forall>ch \<in> set c. \<not> isSpace ch)"
  shows "filter (\<lambda>l. l \<noteq> []) (split (CHR 0x0A) (trim (concat (map (\<lambda>c. c @ [CHR 0x0A]) cs)))) = cs"
proof (cases cs)
  case Nil
  then show ?thesis by (simp add: trim_def)
next
  case (Cons c cs')
  then have ne: "cs \<noteq> []" by simp
  have allne: "\<forall>x \<in> set cs. x \<noteq> []"
    using assms by blast
  have hdne: "hd cs \<noteq> []" and lastne: "last cs \<noteq> []"
    using allne ne by simp_all
  have "hd (hd cs) \<in> set (hd cs)" "last (last cs) \<in> set (last cs)"
    using hdne lastne by simp_all
  moreover have "hd cs \<in> set cs" "last cs \<in> set cs" using ne by simp_all
  ultimately have sp: "\<not> isSpace (hd (hd cs))" "\<not> isSpace (last (last cs))"
    using assms by blast+
  have t: "trim (concat (map (\<lambda>c. c @ [CHR 0x0A]) cs)) = join [CHR 0x0A] cs"
    using trim_line[of "join [CHR 0x0A] cs"] sp ne allne
    by (simp add: concat_lines_join join_nonempty hd_join last_join)
  have nl: "\<forall>x \<in> set cs. CHR 0x0A \<notin> set x"
    using assms by (auto simp: isSpace_def)
  have "filter (\<lambda>l. l \<noteq> []) cs = cs"
    using assms by (simp add: filter_id_conv)
  then show ?thesis
    by (simp add: t split_join_lines[OF ne nl])
qed
text \<open>
  C5. \<open>getCommitsToCherryPick(from, to)\<close> makes one call, \<open>rev-list --reverse --no-merges from..to\<close>,
  which asks the tool for the non-merge commits reachable from \<open>to\<close> and not from \<open>from\<close>,
  oldest first. Whatever list of commit identifiers the tool prints, one per line, is returned
  as it is: same elements, same order, same multiplicity.
\<close>

theorem getCommitsToCherryPick_keeps_listing:
  "(\<exists>oc. issued s (snd (getCommitsToCherryPick G from to s))
           = [(Raw [''rev-list'', ''--reverse'', ''--no-merges'', from @ ''..'' @ to], oc)])
   \<and> ((\<forall>c \<in> set cs. c \<noteq> [] \<and> (\<forall>ch \<in> set c. \<not> isSpace ch))
        \<and> exec G (Raw [''rev-list'', ''--reverse'', ''--no-merges'', from @ ''..'' @ to]) (world s)
            = (Inr (concat (map (\<lambda>c. c @ [CHR 0x0A]) cs)), w)
       \<longrightarrow> fst (getCommitsToCherryPick G from to s) = Inr cs)"
proof (intro conjI impI)
  let ?query = "Raw [''rev-list'', ''--reverse'', ''--no-merges'', from @ ''..'' @ to]"
  show "\<exists>oc. issued s (snd (getCommitsToCherryPick G from to s)) = [(?query, oc)]"
    by (cases "exec G ?query (world s)"; cases "fst (exec G ?query (world s))")
       (auto simp: getCommitsToCherryPick_def and_then_def ret_def call_def issued_def)
next
  assume a: "(\<forall>c \<in> set cs. c \<noteq> [] \<and> (\<forall>ch \<in> set c. \<not> isSpace ch))
        \<and> exec G (Raw [''rev-list'', ''--reverse'', ''--no-merges'', from @ ''..'' @ to]) (world s)
            = (Inr (concat (map (\<lambda>c. c @ [CHR 0x0A]) cs)), w)"
  then show "fst (getCommitsToCherryPick G from to s) = Inr cs"
    using lines_roundtrip[of cs]
    by (simp add: getCommitsToCherryPick_def and_then_def ret_def call_def)
qed

text \<open>Two commits \<open>c1\<close>, \<open>c2\<close> ahead of \<open>main\<close> come back as \<open>[c1, c2]\<close>.\<close>

theorem getCommitsToCherryPick_keeps_listing_witness:
  "exec sample_host (Raw [''rev-list'', ''--reverse'', ''--no-merges'', ''main..feature''])
       (world (start listing_repo))
     = (Inr (concat (map (\<lambda>c. c @ [CHR 0x0A]) [''c1'', ''c2''])), listing_repo)
   \<and> issued (start listing_repo)
        (snd (getCommitsToCherryPick sample_host ''main'' ''feature'' (start listing_repo)))
       = [(Raw [''rev-list'', ''--reverse'', ''--no-merges'', ''main..feature''],
           Done (''c1'' @ [CHR 0x0A] @ ''c2'' @ [CHR 0x0A]))]
   \<and> fst (getCommitsToCherryPick sample_host ''main'' ''feature'' (start listing_repo))
       = Inr [''c1'', ''c2'']"
proof -
  have shape: "\<forall>c \<in> set [''c1'', ''c2'']. c \<noteq> [] \<and> (\<forall>ch \<in> set c. \<not> isSpace ch)"
    by (simp add: isSpace_def)
  have answer: "exec sample_host
       (Raw [''rev-list'', ''--reverse'', ''--no-merges'', ''main'' @ ''..'' @ ''feature''])
       (world (start listing_repo))
     = (Inr (concat (map (\<lambda>c. c @ [CHR 0x0A]) [''c1'', ''c2''])), listing_repo)"
    by (simp add: sample_defs listing_repo_def)
  have calls: "issued (start listing_repo)
        (snd (getCommitsToCherryPick sample_host ''main'' ''feature'' (start listing_repo)))
       = [(Raw [''rev-list'', ''--reverse'', ''--no-merges'', ''main..feature''],
           Done (''c1'' @ [CHR 0x0A] @ ''c2'' @ [CHR 0x0A]))]"
    using answer
    by (simp add: getCommitsToCherryPick_def and_then_def ret_def call_def issued_def start_def)
  have result: "fst (getCommitsToCherryPick sample_host ''main'' ''feature'' (start listing_repo))
       = Inr [''c1'', ''c2'']"
    using getCommitsToCherryPick_keeps_listing[of "start listing_repo" sample_host "''main''"
      "''feature''" "[''c1'', ''c2'']" listing_repo] shape answer
    by blast
  from answer calls result show ?thesis
    by simp
qed


section \<open>The order of the inventory\<close>

lemma compare_le_iff: "compareBranches a b \<le> 0 \<longleftrightarrow> mayPrecede a b"
  by (cases "type a"; cases "type b") (auto simp: compareBranches_def mayPrecede_def)

lemma mayPrecede_total: "mayPrecede a b \<or> mayPrecede b a"
  by (cases "type a"; cases "type b") (auto simp: mayPrecede_def)

lemma mayPrecede_trans: "mayPrecede a b \<Longrightarrow> mayPrecede b c \<Longrightarrow> mayPrecede a c"
  by (cases "type a"; cases "type b"; cases "type c") (auto simp: mayPrecede_def)

lemma set_insertBy: "set (insertBy cmp x xs) = insert x (set xs)"
  by (induction xs) auto

lemma set_sortBy: "set (sortBy cmp xs) = set xs"
  by (induction xs) (simp_all add: sortBy_def set_insertBy)

lemma sorted_insertBy:
  "sorted_wrt mayPrecede xs \<Longrightarrow> sorted_wrt mayPrecede (insertBy compareBranches x xs)"
proof (induction xs)
  case Nil
  then show ?case by simp
next
  case (Cons y ys)
  show ?case
  proof (cases "compareBranches x y \<le> 0")
    case True
    then have "mayPrecede x y" by (simp add: compare_le_iff)
    moreover have "\<forall>z \<in> set ys. mayPrecede y z" using Cons.prems by simp
    ultimately have "\<forall>z \<in> set (y # ys). mayPrecede x z"
      using mayPrecede_trans by auto
    with True Cons.prems show ?thesis by simp
  next
    case False
    then have "mayPrecede y x"
      using mayPrecede_total[of x y] by (simp add: compare_le_iff)
    with False Cons show ?thesis
      by (auto simp: set_insertBy)
  qed
qed

lemma sorted_sortBy: "sorted_wrt mayPrecede (sortBy compareBranches xs)"
  by (induction xs) (simp_all add: sortBy_def sorted_insertBy)

lemma getBranchInfos_sorted_form:
  assumes "getBranchInfos G inc s = (Inr recs, s')"
  shows "\<exists>xs. recs = sortBy compareBranches xs"
  using assms
  by (auto simp: getBranchInfos_def and_then_def ret_def split: prod.splits sum.splits)

text \<open>
  C4. In every result of \<open>getBranchInfos\<close>, no remote record stands before a local one, and of
  two records of the same type the earlier has the later or equal \<open>lastCommitDate\<close>, where a
  missing date counts as time value 0.
\<close>

theorem getBranchInfos_ordered:
  assumes "getBranchInfos G includeRemote s = (Inr recs, s')"
  shows "sorted_wrt (\<lambda>a b. \<not> (type a = Remote \<and> type b = Local)
                        \<and> (type a = type b \<longrightarrow>
                             (case lastCommitDate b of Some t \<Rightarrow> t | None \<Rightarrow> 0)
                               \<le> (case lastCommitDate a of Some t \<Rightarrow> t | None \<Rightarrow> 0))) recs"
proof -
  obtain xs where "recs = sortBy compareBranches xs"
    using getBranchInfos_sorted_form[OF assms] by blast
  then have "sorted_wrt mayPrecede recs"
    by (simp add: sorted_sortBy)
  then show ?thesis
    by (simp add: mayPrecede_def[abs_def] dateOf_def)
qed

lemma inventory_run: "fst (getBranchInfos sample_host True (start inventory_repo)) = Inr inventory"
  by code_simp

text \<open>The inventory of the sample repository: locals first, each type by date descending.\<close>

theorem getBranchInfos_ordered_witness:
  "fst (getBranchInfos sample_host True (start inventory_repo)) = Inr inventory
   \<and> map ref inventory = [''main'', ''dev'', ''origin/feature'', ''origin/main'']
   \<and> map type inventory = [Local, Local, Remote, Remote]
   \<and> map lastCommitDate inventory
       = [Some 1705282200000, None, Some 1709251200000, Some 1705282200000]"
proof -
  have run: "getBranchInfos sample_host True (start inventory_repo)
      = (Inr inventory, snd (getBranchInfos sample_host True (start inventory_repo)))"
    using inventory_run by (simp add: prod_eq_iff)
  from getBranchInfos_ordered[OF run] inventory_run
  show ?thesis by (simp add: inventory_def)
qed

section \<open>The base branch\<close>

lemma forEach_all:
  assumes "forEach f xs s = (Inr ys, s')"
    and "\<And>x t y t'. f x t = (Inr y, t') \<Longrightarrow> P y"
  shows "\<forall>y \<in> set ys. P y"
  using assms(1)
proof (induction xs arbitrary: s ys)
  case Nil
  then show ?case by (simp add: ret_def)
next
  case (Cons x xs)
  obtain r1 s1 where f1: "f x s = (r1, s1)" by (cases "f x s")
  obtain r2 s2 where f2: "forEach f xs s1 = (r2, s2)" by (cases "forEach f xs s1")
  from Cons.prems f1 f2 obtain y zs where
    "r1 = Inr y" "r2 = Inr zs" "ys = y # zs" "s2 = s'"
    by (cases r1; cases r2) (auto simp: and_then_def alongside_def ret_def)
  with f1 f2 assms(2) Cons.IH show ?case by auto
qed

lemma withCounts_no_base:
  "withCounts G lm rm None x t = (Inr y, t') \<Longrightarrow> ahead y = Num 0 \<and> behind y = Num 0"
  by (auto simp: withCounts_def and_then_def ret_def BranchListing.defs)

lemma getBranchInfos_no_base:
  assumes inputs: "inventoryInputs G inc s = (Inr (lm, rm, None), s1)"
    and run: "getBranchInfos G inc s = (Inr recs, s')"
  shows "\<forall>r \<in> set recs. ahead r = Num 0 \<and> behind r = Num 0"
proof -
  from run inputs obtain xs t ys where
    "forEach (withCounts G lm rm None) xs t = (Inr ys, s')" "recs = sortBy compareBranches ys"
    by (auto simp: getBranchInfos_def and_then_def ret_def split: prod.splits sum.splits)
  then show ?thesis
    using forEach_all[of "withCounts G lm rm None" xs t ys s'
        "\<lambda>y. ahead y = Num 0 \<and> behind y = Num 0"] withCounts_no_base[of G lm rm]
    by (simp add: set_sortBy)
qed

lemma trim_candidates:
  "trim ''origin/main'' = ''origin/main''" "trim ''origin/master'' = ''origin/master''"
  "trim ''origin/develop'' = ''origin/develop''"
  by (simp_all add: trim_def isSpace_def)

text \<open>
  C6. \<open>getBaseBranch\<close> returns the first of \<open>origin/main\<close>, \<open>origin/master\<close>, \<open>origin/develop\<close>
  that is among the remote branches, else the first of \<open>main\<close>, \<open>master\<close>, \<open>develop\<close> that is
  among the local branches, else nothing; and when it returns nothing, every record of the
  inventory has \<open>ahead\<close> and \<open>behind\<close> 0.
\<close>

theorem base_branch_preference:
  "(summary G (Branch [''-r'']) (world s) = (Inr remotes, w1)
      \<and> summary G BranchLocal w1 = (Inr locals, w2)
     \<longrightarrow> fst (getBaseBranch G s) =
          Inr (if ''origin/main'' \<in> set remotes then Some ''origin/main''
               else if ''origin/master'' \<in> set remotes then Some ''origin/master''
               else if ''origin/develop'' \<in> set remotes then Some ''origin/develop''
               else if ''main'' \<in> set locals then Some ''main''
               else if ''master'' \<in> set locals then Some ''master''
               else if ''develop'' \<in> set locals then Some ''develop''
               else None))
   \<and> (inventoryInputs G includeRemote s = (Inr (localMerged, remoteMerged, None), s1)
        \<and> getBranchInfos G includeRemote s = (Inr recs, s')
       \<longrightarrow> (\<forall>r \<in> set recs. ahead r = Num 0 \<and> behind r = Num 0))"
proof (rule conjI)
  show "summary G (Branch [''-r'']) (world s) = (Inr remotes, w1)
      \<and> summary G BranchLocal w1 = (Inr locals, w2)
     \<longrightarrow> fst (getBaseBranch G s) =
          Inr (if ''origin/main'' \<in> set remotes then Some ''origin/main''
               else if ''origin/master'' \<in> set remotes then Some ''origin/master''
               else if ''origin/develop'' \<in> set remotes then Some ''origin/develop''
               else if ''main'' \<in> set locals then Some ''main''
               else if ''master'' \<in> set locals then Some ''master''
               else if ''develop'' \<in> set locals then Some ''develop''
               else None)"
    by (simp add: getBaseBranch_def remoteCandidates_def localCandidates_def trim_candidates
        and_then_def ret_def call_all_def)
  show "inventoryInputs G includeRemote s = (Inr (localMerged, remoteMerged, None), s1)
        \<and> getBranchInfos G includeRemote s = (Inr recs, s')
       \<longrightarrow> (\<forall>r \<in> set recs. ahead r = Num 0 \<and> behind r = Num 0)"
    using getBranchInfos_no_base by blast
qed

lemma nobase_inputs:
  "fst (inventoryInputs sample_host False (start nobase_repo)) = Inr ({''feature''}, {}, None)"
  by code_simp

lemma nobase_run:
  "fst (getBranchInfos sample_host False (start nobase_repo)) = Inr nobase_inventory"
  by code_simp

text \<open>A repository with none of the six candidates: no base, and all counts 0.\<close>

theorem base_branch_preference_witness:
  "summary sample_host (Branch [''-r'']) (world (start nobase_repo))
      = (Inr [''upstream/topic''], nobase_repo)
   \<and> summary sample_host BranchLocal nobase_repo = (Inr [''feature'', ''topic''], nobase_repo)
   \<and> fst (getBaseBranch sample_host (start nobase_repo)) = Inr None
   \<and> fst (inventoryInputs sample_host False (start nobase_repo)) = Inr ({''feature''}, {}, None)
   \<and> fst (getBranchInfos sample_host False (start nobase_repo)) = Inr nobase_inventory
   \<and> map ahead nobase_inventory = [Num 0, Num 0]
   \<and> map behind nobase_inventory = [Num 0, Num 0]"
proof -
  have r: "summary sample_host (Branch [''-r'']) (world (start nobase_repo))
      = (Inr [''upstream/topic''], nobase_repo)"
    by (simp add: sample_host_def sample_summary_def start_def nobase_repo_def)
  have l: "summary sample_host BranchLocal nobase_repo = (Inr [''feature'', ''topic''], nobase_repo)"
    by (simp add: sample_host_def sample_summary_def nobase_repo_def)
  have i: "inventoryInputs sample_host False (start nobase_repo)
      = (Inr ({''feature''}, {}, None), snd (inventoryInputs sample_host False (start nobase_repo)))"
    using nobase_inputs by (simp add: prod_eq_iff)
  have g: "getBranchInfos sample_host False (start nobase_repo)
      = (Inr nobase_inventory, snd (getBranchInfos sample_host False (start nobase_repo)))"
    using nobase_run by (simp add: prod_eq_iff)
  note th = base_branch_preference[of sample_host "start nobase_repo" "[''upstream/topic'']"
      nobase_repo "[''feature'', ''topic'']" nobase_repo False "{''feature''}" "{}" _
      nobase_inventory]
  from th r l have b: "fst (getBaseBranch sample_host (start nobase_repo)) = Inr None"
    by simp
  from th i g have "\<forall>r \<in> set nobase_inventory. ahead r = Num 0 \<and> behind r = Num 0"
    by blast
  then have z: "map ahead nobase_inventory = [Num 0, Num 0]"
      "map behind nobase_inventory = [Num 0, Num 0]"
    by (simp_all add: nobase_inventory_def)
  show ?thesis
    by (intro conjI r l b nobase_inputs nobase_run z)
qed


end
